theory Spec2Isabelle
  imports Main "HOL-Library.AList"
begin

section \<open>The abstract syntax tree and the values\<close>

text \<open>
  The evaluator of \<^verbatim>\<open>src/Lib/quackscript/src/interpreter/index.ts\<close> walks a tree made by
  the parser. The node types are declared in \<^verbatim>\<open>../parser/types\<close>; the shapes below are
  the fields the evaluator reads. Source positions are carried by every node for
  diagnostics only and are left out. Numbers are IEEE doubles in the source; the carrier
  of numbers is the type parameter \<open>'n\<close> and the arithmetic on it is taken from the host
  record below.
\<close>

text \<open>A parameter of a function declaration: \<^verbatim>\<open>param.identifier.value\<close> and
  \<^verbatim>\<open>param.dataType.value\<close>.\<close>

record paramNode =
  param_identifier :: string
  param_dataType :: string

text \<open>The optional type annotation of a declaration: \<^verbatim>\<open>node.dataType.value\<close> and, for an
  \<^verbatim>\<open>OptionalDataType\<close>, \<^verbatim>\<open>internalType\<close>.\<close>

record dataTypeNode =
  dt_value :: string
  dt_internalType :: "string option"

text \<open>The selector of an accessor expression: the evaluator only asks whether
  \<^verbatim>\<open>node.value.type === 'FuncCallNode'\<close> and then reads its identifier.\<close>

datatype accessorValue = AccessorFuncCall string | AccessorOther

text \<open>
  \<open>BinaryExpression left operator right\<close>: the left operand is an identifier or a literal
  value (\<^verbatim>\<open>node.left.type === 'Identifier'\<close>, else \<^verbatim>\<open>leftValueUnwrapped = node.left\<close>), the right
  operand is an expression node.
  \<open>Declaration declaratorType identifier expression dataType isOptional\<close>.
  \<open>IfStatement condition trueExpression falseExpression\<close>. A code block is the list of its
  statements (\<^verbatim>\<open>block.body\<close>).
\<close>

datatype 'n Value =
    NumberLiteral 'n
  | TextLiteral string
  | BooleanLiteral bool
  | NothingLiteral
  | Vector2Literal 'n 'n
  | Vector3Literal 'n 'n 'n
  | FuncDeclaration "paramNode list" "'n statement list"
  | InternalFuncDeclaration string "paramNode list"
and 'n leftOperand =
    LeftIdentifier string
  | LeftValue "'n Value"
and 'n expression =
    Literal "'n Value"
  | FuncCallNode string "'n expression list"
  | Identifier string
  | BinaryExpression "'n leftOperand" string "'n expression"
  | AccessorExpression "'n expression" accessorValue
and 'n statement =
    Declaration string string "'n expression" "dataTypeNode option" bool
  | Assignment string "'n expression"
  | Expression "'n expression"
  | ReturnStatement "'n expression"
  | IfStatement "'n expression" "'n statement list" "'n statement list option"
  | ImportStatement string

text \<open>The tag \<^verbatim>\<open>value.type\<close> of a value.\<close>

fun vtype :: "'n Value \<Rightarrow> string" where
  "vtype (NumberLiteral _) = ''NumberLiteral''"
| "vtype (TextLiteral _) = ''TextLiteral''"
| "vtype (BooleanLiteral _) = ''BooleanLiteral''"
| "vtype NothingLiteral = ''NothingLiteral''"
| "vtype (Vector2Literal _ _) = ''Vector2Literal''"
| "vtype (Vector3Literal _ _ _) = ''Vector3Literal''"
| "vtype (FuncDeclaration _ _) = ''FuncDeclaration''"
| "vtype (InternalFuncDeclaration _ _) = ''InternalFuncDeclaration''"

text \<open>\<^verbatim>\<open>statement.body.type === 'ReturnStatement'\<close> and \<^verbatim>\<open>=== 'ImportStatement'\<close>.\<close>

fun isReturnStatement :: "'n statement \<Rightarrow> bool" where
  "isReturnStatement (ReturnStatement _) = True"
| "isReturnStatement _ = False"

section \<open>Errors\<close>

text \<open>
  The three kinds of exception the evaluator throws: \<^verbatim>\<open>RuntimeException(position, message,
  code)\<close>, of which the message is kept; \<^verbatim>\<open>ControlFlowException(type, data)\<close>, the non-local
  return; and the plain JavaScript \<^verbatim>\<open>Error\<close> (also standing for a \<^verbatim>\<open>TypeError\<close> of the
  JavaScript runtime), which is not a runtime error of the language.
\<close>

datatype 'n error =
    RuntimeException string
  | ControlFlowException string "'n Value"
  | Error string

fun isRuntimeException :: "'n error \<Rightarrow> bool" where
  "isRuntimeException (RuntimeException _) = True"
| "isRuntimeException _ = False"

section \<open>Memory and State\<close>

text \<open>A memory cell (\<^verbatim>\<open>MemoryValue\<close> / \<^verbatim>\<open>OptionalMemoryValue\<close> of \<^verbatim>\<open>./types\<close>), with the fields
  the evaluator writes.\<close>

record 'n memoryValue =
  mv_declarationType :: string
  mv_identifier :: string
  mv_type :: string
  mv_value :: "'n Value"
  mv_internalType :: "string option"

type_synonym 'n scope = "(string \<times> 'n memoryValue) list"

text \<open>
  Modelled from the spec: the class \<^verbatim>\<open>Memory\<close> of \<^verbatim>\<open>./memory\<close> is not among the sources.
  Section 3.3 and 4.2 of the specification: the environment is a stack of scopes, a scope
  maps identifiers to cells; here the innermost scope is the head of the list. The
  messages of the errors of \<^verbatim>\<open>Memory\<close> are not known; the names of the specification
  stand for them.
\<close>

text \<open>Modelled from the spec: \<^verbatim>\<open>Memory.get\<close>, "searches scopes innermost-outward. Fails with
  UndefinedIdentifier if not found".\<close>

fun Memory_get :: "string \<Rightarrow> 'n scope list \<Rightarrow> 'n error + 'n memoryValue" where
  "Memory_get ident [] = Inl (RuntimeException ''UndefinedIdentifier'')"
| "Memory_get ident (sc # rest) =
     (case map_of sc ident of
        Some c \<Rightarrow> Inr c
      | None \<Rightarrow> Memory_get ident rest)"

text \<open>Modelled from the spec: \<^verbatim>\<open>Memory.set\<close>, "inserts cell into the current (innermost)
  scope. Fails with RedeclarationError if id already exists in the same scope". The
  specification does not say what happens without any scope; the model takes it as a
  failure of the JavaScript runtime.\<close>

fun Memory_set :: "string \<Rightarrow> 'n memoryValue \<Rightarrow> 'n scope list \<Rightarrow> 'n error + 'n scope list" where
  "Memory_set ident c [] = Inl (Error ''TypeError'')"
| "Memory_set ident c (sc # rest) =
     (case map_of sc ident of
        Some _ \<Rightarrow> Inl (RuntimeException ''RedeclarationError'')
      | None \<Rightarrow> Inr (((ident, c) # sc) # rest))"

text \<open>Modelled from the spec: \<^verbatim>\<open>Memory.update\<close>, "locates the cell (any scope) and replaces its
  value. Fails with UndefinedIdentifier if absent, or AssignToConstant if the cell is a
  constant. The type of the cell is not changed by update". Section 9 of the
  specification records that the source checks no type on update, and so does the
  model.\<close>

fun Memory_update :: "string \<Rightarrow> 'n Value \<Rightarrow> 'n scope list \<Rightarrow> 'n error + 'n scope list" where
  "Memory_update ident v [] = Inl (RuntimeException ''UndefinedIdentifier'')"
| "Memory_update ident v (sc # rest) =
     (case map_of sc ident of
        Some c \<Rightarrow>
          (if mv_declarationType c = ''constant''
           then Inl (RuntimeException ''AssignToConstant'')
           else Inr (AList.update ident (c\<lparr>mv_value := v\<rparr>) sc # rest))
      | None \<Rightarrow>
          (case Memory_update ident v rest of
             Inl e \<Rightarrow> Inl e
           | Inr rest' \<Rightarrow> Inr (sc # rest')))"

text \<open>Modelled from the spec: \<^verbatim>\<open>createScope\<close> / \<^verbatim>\<open>clearScope\<close>, "push/pop a scope", and
  \<^verbatim>\<open>clearMemory\<close>, "resets to a single empty global scope".\<close>

definition createScope :: "'n scope list \<Rightarrow> 'n scope list" where
  "createScope m = [] # m"

definition clearScope :: "'n scope list \<Rightarrow> 'n scope list" where
  "clearScope m = tl m"

definition clearMemory :: "'n scope list" where
  "clearMemory = [[]]"

text \<open>Modelled from the spec: the class \<^verbatim>\<open>State\<close> of \<^verbatim>\<open>./state\<close>, "an independent stack of
  context tags" with \<^verbatim>\<open>push\<close> and \<^verbatim>\<open>pop\<close>; the top of the stack is the head of the list.\<close>

definition state_push :: "string \<Rightarrow> string list \<Rightarrow> string list" where
  "state_push ctx st = ctx # st"

definition state_pop :: "string list \<Rightarrow> string list" where
  "state_pop st = tl st"

section \<open>The interpreter's state and its host\<close>

text \<open>
  The fields of \<^verbatim>\<open>Interpreter\<close> that change: \<^verbatim>\<open>_memory\<close>, \<^verbatim>\<open>_state\<close>, and what \<^verbatim>\<open>_system\<close> has
  been given on \<^verbatim>\<open>stdout\<close> and \<^verbatim>\<open>stderr\<close>, oldest first. \<^verbatim>\<open>_code\<close> is only read to render
  errors, and the calls of \<^verbatim>\<open>console.log\<close> and \<^verbatim>\<open>printMemory\<close> write to the developer
  console, not to the host's outputs; they are left out.
\<close>

record 'n interp =
  memory :: "'n scope list"
  state :: "string list"
  stdout :: "string list"
  stderr :: "string list"

text \<open>
  What the evaluator imports and calls but does not define, taken as parameters:
  \<^item> \<open>valueToDataType\<close>: \<^verbatim>\<open>DataTypeUtils.valueToDataType(value.type)\<close>;
  \<^item> \<open>convertValueToText\<close>: \<^verbatim>\<open>DataTypeUtils.convertValueToText(output).value\<close>;
  \<^item> \<open>numCompare\<close>, \<open>numArith\<close>: the JavaScript operators on doubles, by operator name;
  \<^item> \<open>loadModule\<close>: \<^verbatim>\<open>loadFile\<close>, then the lexer, then the parser, any of which may throw;
  \<^item> \<open>executeInternalFunc\<close>: the standard library, given the function, the memory and
    the system; it returns or throws, and may change the memory and write to both
    outputs (the returned lists are what it appends);
  \<^item> \<open>executeStaticFunction\<close>: \<^verbatim>\<open>StaticPrimitiveAttributes.executeStaticFunction\<close>;
  \<^item> \<open>exceptionToString\<close>: \<^verbatim>\<open>RuntimeException.toString\<close>.
\<close>

record 'n host =
  valueToDataType :: "string \<Rightarrow> string"
  convertValueToText :: "'n Value \<Rightarrow> string"
  numCompare :: "string \<Rightarrow> 'n \<Rightarrow> 'n \<Rightarrow> bool"
  numArith :: "string \<Rightarrow> 'n \<Rightarrow> 'n \<Rightarrow> 'n"
  loadModule :: "string \<Rightarrow> 'n error + 'n statement list"
  executeInternalFunc ::
    "'n Value \<Rightarrow> 'n scope list \<Rightarrow> ('n error + 'n Value) \<times> 'n scope list \<times> string list \<times> string list"
  executeStaticFunction :: "string \<Rightarrow> 'n Value \<Rightarrow> 'n error + 'n Value"
  exceptionToString :: "string \<Rightarrow> string"

text \<open>
  A computation of the evaluator takes the state and gives \<open>None\<close> when the fuel is used
  up (the source would still be running), or the state it leaves together with the
  value returned (\<open>Inr\<close>) or the exception thrown (\<open>Inl\<close>). The state is kept when an
  exception is thrown, as the fields of the object are.
\<close>

type_synonym ('n, 'a) comp = "'n interp \<Rightarrow> (('n error + 'a) \<times> 'n interp) option"

definition ret :: "'a \<Rightarrow> ('n, 'a) comp" where
  "ret a s = Some (Inr a, s)"

definition throw :: "'n error \<Rightarrow> ('n, 'a) comp" where
  "throw e s = Some (Inl e, s)"

definition andThen :: "('n, 'a) comp \<Rightarrow> ('a \<Rightarrow> ('n, 'b) comp) \<Rightarrow> ('n, 'b) comp" where
  "andThen m f s =
     (case m s of
        None \<Rightarrow> None
      | Some (Inl e, s') \<Rightarrow> Some (Inl e, s')
      | Some (Inr a, s') \<Rightarrow> f a s')"

text \<open>A statement that only changes the state.\<close>

definition perform :: "('n interp \<Rightarrow> 'n interp) \<Rightarrow> ('n, unit) comp" where
  "perform g s = Some (Inr (), g s)"

text \<open>\<^verbatim>\<open>this._system.stdout(text)\<close>.\<close>

definition system_stdout :: "string \<Rightarrow> ('n, unit) comp" where
  "system_stdout text = perform (\<lambda>s. s\<lparr>stdout := stdout s @ [text]\<rparr>)"

text \<open>\<^verbatim>\<open>this._memory.get(id)\<close>, \<^verbatim>\<open>this._memory.set(id, cell)\<close> and \<^verbatim>\<open>this._memory.update(id, value)\<close>
  on the interpreter's state.\<close>

definition getCell :: "string \<Rightarrow> ('n, 'n memoryValue) comp" where
  "getCell ident s =
     (case Memory_get ident (memory s) of
        Inl e \<Rightarrow> Some (Inl e, s)
      | Inr c \<Rightarrow> Some (Inr c, s))"

definition setCell :: "string \<Rightarrow> 'n memoryValue \<Rightarrow> ('n, unit) comp" where
  "setCell ident c s =
     (case Memory_set ident c (memory s) of
        Inl e \<Rightarrow> Some (Inl e, s)
      | Inr m \<Rightarrow> Some (Inr (), s\<lparr>memory := m\<rparr>))"

definition updateCell :: "string \<Rightarrow> 'n Value \<Rightarrow> ('n, unit) comp" where
  "updateCell ident v s =
     (case Memory_update ident v (memory s) of
        Inl e \<Rightarrow> Some (Inl e, s)
      | Inr m \<Rightarrow> Some (Inr (), s\<lparr>memory := m\<rparr>))"

section \<open>Rendering of messages\<close>

text \<open>The decimal digits of a number, as a JavaScript template string prints
  \<^verbatim>\<open>params.length\<close>.\<close>

definition digitChar :: "nat \<Rightarrow> char" where
  "digitChar d = ''0123456789'' ! d"

function showNat :: "nat \<Rightarrow> string" where
  "showNat n = (if n < 10 then [digitChar n] else showNat (n div 10) @ [digitChar (n mod 10)])"
  by pat_completeness auto
termination
  by (relation "measure id") auto

declare showNat.simps [simp del]

section \<open>Binary operators on two values\<close>

text \<open>
  Lines 330 to 466 of \<^verbatim>\<open>executeBinaryExpression\<close>, after both operands have been
  evaluated: the three blocks for two booleans, two numbers and two texts, each with its
  \<^verbatim>\<open>switch (node.operator)\<close>, then the last \<^verbatim>\<open>if\<close> and the final \<^verbatim>\<open>throw\<close>. A block whose
  \<^verbatim>\<open>switch\<close> leaves \<^verbatim>\<open>finalValue\<close> at \<^verbatim>\<open>null\<close> falls through to the code after it (the boolean
  block throws instead).
\<close>

text \<open>Lines 453 to 466. In JavaScript \<^verbatim>\<open>a && b || c\<close> is \<^verbatim>\<open>(a && b) || c\<close>.\<close>

definition crossType :: "string \<Rightarrow> 'n Value \<Rightarrow> 'n Value \<Rightarrow> 'n error + 'n Value" where
  "crossType operator l r =
     (if (vtype l \<noteq> vtype r \<and> operator = ''!='') \<or> operator = ''==''
      then Inr (BooleanLiteral (operator = ''!=''))
      else Inl (RuntimeException ''Unable to parse binary expression''))"

text \<open>Lines 331 to 359.\<close>

definition booleanOperator :: "string \<Rightarrow> bool \<Rightarrow> bool \<Rightarrow> 'n error + 'n Value" where
  "booleanOperator operator l r =
     (if operator = ''!='' then Inr (BooleanLiteral (l \<noteq> r))
      else if operator = ''&&'' then Inr (BooleanLiteral (l \<and> r))
      else if operator = ''=='' then Inr (BooleanLiteral (l = r))
      else if operator = ''||'' then Inr (BooleanLiteral (l \<or> r))
      else Inl (RuntimeException ''Unable to parse binary expression''))"

text \<open>Lines 361 to 417: the operators whose result is a boolean, those whose result is a
  number, and for any other operator the fall through.\<close>

definition numberOperator :: "'n host \<Rightarrow> string \<Rightarrow> 'n \<Rightarrow> 'n \<Rightarrow> ('n error + 'n Value) option" where
  "numberOperator h operator l r =
     (if operator \<in> set [''!='', ''<'', ''<='', ''>='', ''=='', ''>'']
      then Some (Inr (BooleanLiteral (numCompare h operator l r)))
      else if operator \<in> set [''%'', ''*'', ''-'', ''+'', ''/'']
      then Some (Inr (NumberLiteral (numArith h operator l r)))
      else None)"

text \<open>Lines 419 to 451.\<close>

definition textOperator :: "string \<Rightarrow> string \<Rightarrow> string \<Rightarrow> ('n error + 'n Value) option" where
  "textOperator operator l r =
     (if operator = ''!='' then Some (Inr (BooleanLiteral (l \<noteq> r)))
      else if operator = ''=='' then Some (Inr (BooleanLiteral (l = r)))
      else if operator = ''+'' then Some (Inr (TextLiteral (l @ r)))
      else None)"

definition binaryOperator :: "'n host \<Rightarrow> string \<Rightarrow> 'n Value \<Rightarrow> 'n Value \<Rightarrow> 'n error + 'n Value" where
  "binaryOperator h operator l r =
     (case l of
        BooleanLiteral a \<Rightarrow>
          (case r of
             BooleanLiteral b \<Rightarrow> booleanOperator operator a b
           | _ \<Rightarrow> crossType operator l r)
      | NumberLiteral a \<Rightarrow>
          (case r of
             NumberLiteral b \<Rightarrow>
               (case numberOperator h operator a b of
                  Some res \<Rightarrow> res
                | None \<Rightarrow> crossType operator l r)
           | _ \<Rightarrow> crossType operator l r)
      | TextLiteral a \<Rightarrow>
          (case r of
             TextLiteral b \<Rightarrow>
               (case textOperator operator a b of
                  Some res \<Rightarrow> res
                | None \<Rightarrow> crossType operator l r)
           | _ \<Rightarrow> crossType operator l r)
      | _ \<Rightarrow> crossType operator l r)"

section \<open>Statements and expressions\<close>

text \<open>
  The methods of \<^verbatim>\<open>Interpreter\<close> call each other through \<^verbatim>\<open>this\<close>, and a call of a
  function runs a body taken from the memory, so their recursion is not on the tree.
  Each method is a definition that takes \<open>this\<close>, the record of the methods it may call;
  \<open>Interpreter\<close> below ties them together with fuel. The module
  methods also give back the statements the module node is left with, since
  \<^verbatim>\<open>executeModule\<close> changes that array.
\<close>

record 'n methods =
  m_executeModule ::
    "'n statement list \<Rightarrow> 'n interp \<Rightarrow> (('n error + unit) \<times> 'n interp \<times> 'n statement list) option"
  m_executeAllTopImports :: "'n statement list \<Rightarrow> ('n, string list) comp"
  m_executeImportNode :: "string \<Rightarrow> ('n, unit) comp"
  m_executeCodeBlock :: "'n statement list \<Rightarrow> ('n, unit) comp"
  m_executeStatement :: "'n statement \<Rightarrow> ('n, 'n Value option) comp"
  m_executeIfStatementNode ::
    "'n expression \<Rightarrow> 'n statement list \<Rightarrow> 'n statement list option \<Rightarrow> ('n, unit) comp"
  m_executeDeclaration ::
    "string \<Rightarrow> string \<Rightarrow> 'n expression \<Rightarrow> dataTypeNode option \<Rightarrow> bool \<Rightarrow> ('n, unit) comp"
  m_executeAssignment :: "string \<Rightarrow> 'n expression \<Rightarrow> ('n, unit) comp"
  m_executeFunctionCall :: "string \<Rightarrow> 'n expression list \<Rightarrow> ('n, 'n Value) comp"
  m_executeExpressionNode :: "'n expression \<Rightarrow> ('n, 'n Value) comp"
  m_executeAccessorExpression :: "'n expression \<Rightarrow> accessorValue \<Rightarrow> ('n, 'n Value) comp"
  m_executeBinaryExpression :: "'n leftOperand \<Rightarrow> string \<Rightarrow> 'n expression \<Rightarrow> ('n, 'n Value) comp"

text \<open>\<^verbatim>\<open>fn.parameters?.params ?? []\<close> on the value of the cell, cast to a function
  declaration whatever it is.\<close>

fun parametersOf :: "'n Value \<Rightarrow> paramNode list" where
  "parametersOf (FuncDeclaration ps _) = ps"
| "parametersOf (InternalFuncDeclaration _ ps) = ps"
| "parametersOf _ = []"

text \<open>\<^verbatim>\<open>executeInternalFunc(fn, this._memory, this._system)\<close>.\<close>

definition callInternalFunc :: "'n host \<Rightarrow> 'n Value \<Rightarrow> ('n, 'n Value) comp" where
  "callInternalFunc h fn s =
     (case executeInternalFunc h fn (memory s) of
        (res, m, out, err) \<Rightarrow>
          Some (res, s\<lparr>memory := m, stdout := stdout s @ out, stderr := stderr s @ err\<rparr>))"

text \<open>The \<^verbatim>\<open>catch\<close> of lines 251 to 257 around the body of a function: a
  \<^verbatim>\<open>ControlFlowException\<close> of type \<^verbatim>\<open>'Return'\<close> gives the returned value, anything else is
  thrown again; without an exception the value stays \<^verbatim>\<open>NothingLiteral\<close>.\<close>

definition catchReturn :: "('n, unit) comp \<Rightarrow> ('n, 'n Value) comp" where
  "catchReturn m s =
     (case m s of
        None \<Rightarrow> None
      | Some (Inr _, s') \<Rightarrow> Some (Inr NothingLiteral, s')
      | Some (Inl ex, s') \<Rightarrow>
          (case ex of
             ControlFlowException t d \<Rightarrow>
               (if t = ''Return'' then Some (Inr d, s') else Some (Inl ex, s'))
           | _ \<Rightarrow> Some (Inl ex, s')))"

text \<open>Lines 97 to 104. The outcome of a return statement is always a value.\<close>

fun executeCodeBlock :: "'n methods \<Rightarrow> 'n statement list \<Rightarrow> ('n, unit) comp" where
  "executeCodeBlock this [] = ret ()"
| "executeCodeBlock this (statement # rest) =
     andThen (m_executeStatement this statement) (\<lambda>outcome.
       if isReturnStatement statement
       then (case outcome of
               Some v \<Rightarrow> throw (ControlFlowException ''Return'' v)
             | None \<Rightarrow> throw (Error ''unreachable''))
       else executeCodeBlock this rest)"

text \<open>Lines 106 to 121. \<open>None\<close> is the \<^verbatim>\<open>void\<close> of \<^verbatim>\<open>Value | void\<close>.\<close>

fun executeStatement :: "'n methods \<Rightarrow> 'n statement \<Rightarrow> ('n, 'n Value option) comp" where
  "executeStatement this (Declaration declaratorType ident expr dataType isOptional) =
     andThen (m_executeDeclaration this declaratorType ident expr dataType isOptional) (\<lambda>_. ret None)"
| "executeStatement this (Assignment ident expr) =
     andThen (m_executeAssignment this ident expr) (\<lambda>_. ret None)"
| "executeStatement this (Expression expr) =
     andThen (m_executeExpressionNode this expr) (\<lambda>v. ret (Some v))"
| "executeStatement this (ReturnStatement expr) =
     andThen (m_executeExpressionNode this expr) (\<lambda>v. ret (Some v))"
| "executeStatement this (IfStatement condition trueExpression falseExpression) =
     andThen (m_executeIfStatementNode this condition trueExpression falseExpression) (\<lambda>_. ret None)"
| "executeStatement this (ImportStatement path) =
     throw (RuntimeException ''Import statements must be at the top of the file'')"

text \<open>Lines 123 to 149.\<close>

definition executeIfStatementNode ::
  "'n methods \<Rightarrow> 'n expression \<Rightarrow> 'n statement list \<Rightarrow> 'n statement list option \<Rightarrow> ('n, unit) comp"
where
  "executeIfStatementNode this condition trueExpression falseExpression =
     andThen (m_executeExpressionNode this condition) (\<lambda>v.
       case v of
         BooleanLiteral isConditionTrue \<Rightarrow>
           (if isConditionTrue then m_executeCodeBlock this trueExpression
            else (case falseExpression of
                    Some block \<Rightarrow> m_executeCodeBlock this block
                  | None \<Rightarrow> ret ()))
       | NothingLiteral \<Rightarrow>
           (case falseExpression of
              Some block \<Rightarrow> m_executeCodeBlock this block
            | None \<Rightarrow> ret ())
       | _ \<Rightarrow> throw (RuntimeException ''Invalid boolean expression''))"

text \<open>Lines 151 to 184.\<close>

definition executeDeclaration ::
  "'n methods \<Rightarrow> 'n host \<Rightarrow> string \<Rightarrow> string \<Rightarrow> 'n expression \<Rightarrow> dataTypeNode option \<Rightarrow> bool
    \<Rightarrow> ('n, unit) comp"
where
  "executeDeclaration this h typeOfAssignment ident expr dataType isOptional =
     andThen (m_executeExpressionNode this expr) (\<lambda>v.
       let type = (case dataType of
                     Some d \<Rightarrow> dt_value d
                   | None \<Rightarrow> valueToDataType h (vtype v))
       in if isOptional
          then setCell ident
                 \<lparr>mv_declarationType = typeOfAssignment, mv_identifier = ident,
                  mv_type = ''optional'', mv_value = v,
                  mv_internalType =
                    Some (case dataType of
                            Some d \<Rightarrow> (case dt_internalType d of Some t \<Rightarrow> t | None \<Rightarrow> type)
                          | None \<Rightarrow> type)\<rparr>
          else setCell ident
                 \<lparr>mv_declarationType = typeOfAssignment, mv_identifier = ident,
                  mv_type = type, mv_value = v, mv_internalType = None\<rparr>)"

text \<open>Lines 186 to 198. The right-hand side is an expression node, so the \<^verbatim>\<open>switch\<close> takes
  its one \<^verbatim>\<open>case\<close>.\<close>

definition executeAssignment :: "'n methods \<Rightarrow> string \<Rightarrow> 'n expression \<Rightarrow> ('n, unit) comp" where
  "executeAssignment this ident expr =
     andThen (m_executeExpressionNode this expr) (\<lambda>v. updateCell ident v)"

text \<open>Lines 233 to 239, the cell of an argument.\<close>

definition argumentCell :: "paramNode \<Rightarrow> 'n Value \<Rightarrow> 'n memoryValue" where
  "argumentCell param argResult =
     \<lparr>mv_declarationType = ''argument'', mv_identifier = param_identifier param,
      mv_type = param_dataType param, mv_value = argResult, mv_internalType = None\<rparr>"

text \<open>Lines 220 to 240, the \<^verbatim>\<open>params.forEach\<close>.\<close>

fun bindParams :: "'n methods \<Rightarrow> 'n host \<Rightarrow> paramNode list \<Rightarrow> 'n expression list \<Rightarrow> ('n, unit) comp" where
  "bindParams this h [] args = ret ()"
| "bindParams this h (param # params) [] = throw (Error ''internal error, index out of bounds'')"
| "bindParams this h (param # params) (arg # args) =
     andThen (m_executeExpressionNode this arg) (\<lambda>argResult.
       let dataType = valueToDataType h (vtype argResult)
       in if dataType \<noteq> param_dataType param
          then throw (RuntimeException
                 (''Expected argument of type '' @ param_dataType param @ '' but got '' @ dataType))
          else andThen (setCell (param_identifier param) (argumentCell param argResult))
                 (\<lambda>_. bindParams this h params args))"

text \<open>Lines 212 and 213.\<close>

definition enterFunction :: "'n interp \<Rightarrow> 'n interp" where
  "enterFunction s =
     s\<lparr>state := state_push ''function'' (state s), memory := createScope (memory s)\<rparr>"

text \<open>Lines 260 and 261.\<close>

definition leaveFunction :: "'n interp \<Rightarrow> 'n interp" where
  "leaveFunction s = s\<lparr>memory := clearScope (memory s), state := state_pop (state s)\<rparr>"

text \<open>Lines 200 to 263. A cell of type \<^verbatim>\<open>'func'\<close> whose value is no function declaration
  has no \<^verbatim>\<open>body\<close>: reading \<^verbatim>\<open>block.body\<close> of \<^verbatim>\<open>undefined\<close> is a \<^verbatim>\<open>TypeError\<close> of the runtime.\<close>

definition executeFunctionCall ::
  "'n methods \<Rightarrow> 'n host \<Rightarrow> string \<Rightarrow> 'n expression list \<Rightarrow> ('n, 'n Value) comp"
where
  "executeFunctionCall this h ident args =
     andThen (getCell ident) (\<lambda>memoryValue.
       if mv_type memoryValue \<noteq> ''func'' \<and> mv_type memoryValue \<noteq> ''internalFunc''
       then throw (RuntimeException
              (''Tried to call variable '' @ [CHR 0x27] @ ident @ [CHR 0x27] @ '' as a function''))
       else if vtype (mv_value memoryValue) = ''NothingLiteral''
       then throw (RuntimeException
              (''Tried to call '' @ [CHR 0x27] @ ''nothing'' @ [CHR 0x27] @ '' as a function''))
       else
         (let fn = mv_value memoryValue
          in andThen (perform enterFunction) (\<lambda>_.
               let params = parametersOf fn
               in if length params \<noteq> length args
                  then throw (RuntimeException
                         (''Expecting '' @ showNat (length params) @ '' arguments but got ''
                           @ showNat (length args) @ '' arguments''))
                  else andThen (bindParams this h params args) (\<lambda>_.
                         andThen
                           (if mv_type memoryValue = ''internalFunc''
                            then callInternalFunc h fn
                            else (case fn of
                                    FuncDeclaration _ body \<Rightarrow>
                                      catchReturn (m_executeCodeBlock this body)
                                  | _ \<Rightarrow> throw (Error ''TypeError'')))
                           (\<lambda>returnedValue.
                              andThen (perform leaveFunction) (\<lambda>_. ret returnedValue))))))"

text \<open>Lines 287 to 299. \<^verbatim>\<open>node.value\<close> is an object, and a template string prints an object
  as \<^verbatim>\<open>[object Object]\<close>.\<close>

definition executeAccessorExpression ::
  "'n methods \<Rightarrow> 'n host \<Rightarrow> 'n expression \<Rightarrow> accessorValue \<Rightarrow> ('n, 'n Value) comp"
where
  "executeAccessorExpression this h expr val =
     andThen (m_executeExpressionNode this expr) (\<lambda>expressionValue.
       let expressionDataType = valueToDataType h (vtype expressionValue)
       in case val of
            AccessorFuncCall ident \<Rightarrow>
              (case executeStaticFunction h ident expressionValue of
                 Inl e \<Rightarrow> throw e
               | Inr v \<Rightarrow> ret v)
          | AccessorOther \<Rightarrow>
              throw (RuntimeException
                (''Attribute [object Object] is not part '' @ expressionDataType)))"

text \<open>Lines 314 to 328: the left operand, looked up when it is an identifier (a cell of a
  function type is refused), itself when it is a literal.\<close>

definition unwrapLeft :: "'n leftOperand \<Rightarrow> ('n, 'n Value) comp" where
  "unwrapLeft left =
     (case left of
        LeftIdentifier ident \<Rightarrow>
          andThen (getCell ident) (\<lambda>valueFromMemory.
            if mv_type valueFromMemory = ''func'' \<or> mv_type valueFromMemory = ''internalFunc''
            then throw (RuntimeException ''Invalid binary expression'')
            else ret (mv_value valueFromMemory))
      | LeftValue leftValue \<Rightarrow> ret leftValue)"

text \<open>Lines 301 to 467: the right operand first, then the left one, then
  \<open>binaryOperator\<close> for lines 330 to 466.\<close>

definition executeBinaryExpression ::
  "'n methods \<Rightarrow> 'n host \<Rightarrow> 'n leftOperand \<Rightarrow> string \<Rightarrow> 'n expression \<Rightarrow> ('n, 'n Value) comp"
where
  "executeBinaryExpression this h left operator right =
     andThen (m_executeExpressionNode this right) (\<lambda>rightValue.
       if vtype rightValue = ''FuncDeclaration'' \<or> vtype rightValue = ''InternalFuncDeclaration''
       then throw (RuntimeException ''Invalid binary expression'')
       else andThen (unwrapLeft left) (\<lambda>leftValueUnwrapped.
              case binaryOperator h operator leftValueUnwrapped rightValue of
                Inl e \<Rightarrow> throw e
              | Inr v \<Rightarrow> ret v))"

text \<open>Lines 265 to 285. The type \<^verbatim>\<open>ExpressionNode\<close> has no \<^verbatim>\<open>InternalFuncDeclaration\<close> as a
  literal and the \<^verbatim>\<open>switch\<close> has no \<^verbatim>\<open>case\<close> for it; the model fails there.\<close>

fun executeExpressionNode :: "'n methods \<Rightarrow> 'n expression \<Rightarrow> ('n, 'n Value) comp" where
  "executeExpressionNode this (Literal v) =
     (case v of
        InternalFuncDeclaration _ _ \<Rightarrow> throw (Error ''unreachable'')
      | _ \<Rightarrow> ret v)"
| "executeExpressionNode this (FuncCallNode ident args) = m_executeFunctionCall this ident args"
| "executeExpressionNode this (Identifier ident) =
     andThen (getCell ident) (\<lambda>c. ret (mv_value c))"
| "executeExpressionNode this (BinaryExpression left operator right) =
     m_executeBinaryExpression this left operator right"
| "executeExpressionNode this (AccessorExpression expr val) =
     m_executeAccessorExpression this expr val"

section \<open>Modules\<close>

text \<open>Lines 90 to 95.\<close>

definition executeImportNode :: "'n methods \<Rightarrow> 'n host \<Rightarrow> string \<Rightarrow> ('n, unit) comp" where
  "executeImportNode this h path s =
     (case loadModule h path of
        Inl e \<Rightarrow> Some (Inl e, s)
      | Inr tree \<Rightarrow>
          (case m_executeModule this tree s of
             None \<Rightarrow> None
           | Some (res, s', _) \<Rightarrow> Some (res, s')))"

text \<open>Lines 76 to 88: the import statements executed, in order, up to the first
  statement that is not an import.\<close>

fun executeAllTopImports :: "'n methods \<Rightarrow> 'n statement list \<Rightarrow> ('n, string list) comp" where
  "executeAllTopImports this [] = ret []"
| "executeAllTopImports this (ImportStatement path # rest) =
     andThen (m_executeImportNode this path) (\<lambda>_.
       andThen (executeAllTopImports this rest) (\<lambda>importedModules.
         ret (path # importedModules)))"
| "executeAllTopImports this (statement # rest) = ret []"

text \<open>Lines 65 to 70, the loop over \<^verbatim>\<open>statementsToExecute\<close>.\<close>

fun executeStatements :: "'n methods \<Rightarrow> 'n host \<Rightarrow> 'n statement list \<Rightarrow> ('n, unit) comp" where
  "executeStatements this h [] = ret ()"
| "executeStatements this h (statement # rest) =
     andThen (m_executeStatement this statement) (\<lambda>output.
       case output of
         None \<Rightarrow> executeStatements this h rest
       | Some v \<Rightarrow>
           (if vtype v \<noteq> ''NothingLiteral''
            then andThen (system_stdout (convertValueToText h v)) (\<lambda>_.
                   executeStatements this h rest)
            else executeStatements this h rest))"

text \<open>
  Lines 60 to 71. \<^verbatim>\<open>Array.prototype.splice(start)\<close> removes the elements from \<^verbatim>\<open>start\<close> to the
  end of the array it is called on and returns them: \<^verbatim>\<open>statementsToExecute\<close> is what is
  removed, and \<^verbatim>\<open>moduleNode.statements\<close> keeps the first \<^verbatim>\<open>importedModulesCounts\<close> elements.
  The third component of the result is \<^verbatim>\<open>moduleNode.statements\<close> when the method is left.
\<close>

definition executeModule ::
  "'n methods \<Rightarrow> 'n host \<Rightarrow> 'n statement list \<Rightarrow> 'n interp
    \<Rightarrow> (('n error + unit) \<times> 'n interp \<times> 'n statement list) option"
where
  "executeModule this h statements s =
     (case m_executeAllTopImports this statements s of
        None \<Rightarrow> None
      | Some (Inl e, s') \<Rightarrow> Some (Inl e, s', statements)
      | Some (Inr modulesImported, s') \<Rightarrow>
          (let importedModulesCounts = length modulesImported;
               statementsToExecute = drop importedModulesCounts statements;
               statements' = take importedModulesCounts statements
           in case executeStatements this h statementsToExecute s' of
                None \<Rightarrow> None
              | Some (res, s'') \<Rightarrow> Some (res, s'', statements')))"

section \<open>The interpreter\<close>

text \<open>
  \<open>Interpreter n h\<close> is the object whose methods may nest calls \<open>n\<close> deep: every call of a
  method through \<^verbatim>\<open>this\<close> uses one unit of fuel, and with none left the method does not
  return (\<open>None\<close>).
\<close>

definition exhausted :: "'n methods" where
  "exhausted =
     \<lparr>m_executeModule = (\<lambda>_ _. None),
      m_executeAllTopImports = (\<lambda>_ _. None),
      m_executeImportNode = (\<lambda>_ _. None),
      m_executeCodeBlock = (\<lambda>_ _. None),
      m_executeStatement = (\<lambda>_ _. None),
      m_executeIfStatementNode = (\<lambda>_ _ _ _. None),
      m_executeDeclaration = (\<lambda>_ _ _ _ _ _. None),
      m_executeAssignment = (\<lambda>_ _ _. None),
      m_executeFunctionCall = (\<lambda>_ _ _. None),
      m_executeExpressionNode = (\<lambda>_ _. None),
      m_executeAccessorExpression = (\<lambda>_ _ _. None),
      m_executeBinaryExpression = (\<lambda>_ _ _ _. None)\<rparr>"

primrec Interpreter :: "nat \<Rightarrow> 'n host \<Rightarrow> 'n methods" where
  "Interpreter 0 h = exhausted"
| "Interpreter (Suc n) h =
     \<lparr>m_executeModule = executeModule (Interpreter n h) h,
      m_executeAllTopImports = executeAllTopImports (Interpreter n h),
      m_executeImportNode = executeImportNode (Interpreter n h) h,
      m_executeCodeBlock = executeCodeBlock (Interpreter n h),
      m_executeStatement = executeStatement (Interpreter n h),
      m_executeIfStatementNode = executeIfStatementNode (Interpreter n h),
      m_executeDeclaration = executeDeclaration (Interpreter n h) h,
      m_executeAssignment = executeAssignment (Interpreter n h),
      m_executeFunctionCall = executeFunctionCall (Interpreter n h) h,
      m_executeExpressionNode = executeExpressionNode (Interpreter n h),
      m_executeAccessorExpression = executeAccessorExpression (Interpreter n h) h,
      m_executeBinaryExpression = executeBinaryExpression (Interpreter n h) h\<rparr>"

text \<open>Lines 44 to 58, the entry point. The result also gives the statements the module
  node is left with.\<close>

definition execute ::
  "nat \<Rightarrow> 'n host \<Rightarrow> 'n statement list \<Rightarrow> 'n interp
    \<Rightarrow> (('n error + unit) \<times> 'n interp \<times> 'n statement list) option"
where
  "execute n h tree s =
     (case m_executeModule (Interpreter n h) tree (s\<lparr>memory := clearMemory\<rparr>) of
        None \<Rightarrow> None
      | Some (Inr _, s', tree') \<Rightarrow> Some (Inr (), s', tree')
      | Some (Inl er, s', tree') \<Rightarrow>
          (case er of
             RuntimeException message \<Rightarrow>
               Some (Inr (), s'\<lparr>stderr := stderr s' @ [exceptionToString h message]\<rparr>, tree')
           | _ \<Rightarrow> Some (Inl er, s', tree')))"

section \<open>A host for the examples\<close>

text \<open>
  The concrete inputs below run on this host, with integers for the numbers. The names
  that \<^verbatim>\<open>valueToDataType\<close> gives are those the evaluator compares with (\<^verbatim>\<open>'func'\<close>,
  \<^verbatim>\<open>'internalFunc'\<close>) and the type names of the language for the rest; no file can be
  loaded, the one internal function returns \<^verbatim>\<open>NothingLiteral\<close>, and the one static
  function returns its receiver.
\<close>

definition exampleHost :: "int host" where
  "exampleHost =
     \<lparr>valueToDataType = (\<lambda>t.
        if t = ''NumberLiteral'' then ''number''
        else if t = ''TextLiteral'' then ''text''
        else if t = ''BooleanLiteral'' then ''boolean''
        else if t = ''NothingLiteral'' then ''nothing''
        else if t = ''Vector2Literal'' then ''vector2''
        else if t = ''Vector3Literal'' then ''vector3''
        else if t = ''FuncDeclaration'' then ''func''
        else ''internalFunc''),
      convertValueToText = (\<lambda>v. case v of TextLiteral t \<Rightarrow> t | _ \<Rightarrow> vtype v),
      numCompare = (\<lambda>operator a b. if operator = ''=='' then a = b else a \<noteq> b),
      numArith = (\<lambda>operator a b. a + b),
      loadModule = (\<lambda>path. Inl (RuntimeException ''ImportUnsupported'')),
      executeInternalFunc = (\<lambda>fn m. (Inr NothingLiteral, m, [], [])),
      executeStaticFunction = (\<lambda>ident v. Inr v),
      exceptionToString = (\<lambda>message. message)\<rparr>"

text \<open>The state after \<^verbatim>\<open>new Interpreter()\<close> and \<^verbatim>\<open>clearMemory()\<close>.\<close>

definition emptyInterp :: "int interp" where
  "emptyInterp = \<lparr>memory = clearMemory, state = [], stdout = [], stderr = []\<rparr>"

text \<open>A cell holding a function without parameters and with an empty body.\<close>

definition idleFunction :: "int memoryValue" where
  "idleFunction =
     \<lparr>mv_declarationType = ''constant'', mv_identifier = ''f'', mv_type = ''func'',
      mv_value = FuncDeclaration [] [], mv_internalType = None\<rparr>"

text \<open>A caller that binds \<^verbatim>\<open>x\<close> to \<^verbatim>\<open>'outer'\<close> and \<^verbatim>\<open>f\<close> to a function of the parameters \<^verbatim>\<open>x\<close>
  and \<^verbatim>\<open>y\<close> that returns \<^verbatim>\<open>y\<close>.\<close>

definition secondOf :: "int memoryValue" where
  "secondOf =
     \<lparr>mv_declarationType = ''constant'', mv_identifier = ''f'', mv_type = ''func'',
      mv_value =
        FuncDeclaration
          [\<lparr>param_identifier = ''x'', param_dataType = ''text''\<rparr>,
           \<lparr>param_identifier = ''y'', param_dataType = ''text''\<rparr>]
          [ReturnStatement (Identifier ''y'')],
      mv_internalType = None\<rparr>"

definition outerX :: "int memoryValue" where
  "outerX =
     \<lparr>mv_declarationType = ''constant'', mv_identifier = ''x'', mv_type = ''text'',
      mv_value = TextLiteral ''outer'', mv_internalType = None\<rparr>"

definition shadowingCaller :: "int interp" where
  "shadowingCaller =
     \<lparr>memory = [[(''x'', outerX), (''f'', secondOf)]], state = [], stdout = [], stderr = []\<rparr>"

text \<open>A caller whose cell \<^verbatim>\<open>f\<close> was declared with a function and then assigned the number
  \<^verbatim>\<open>3\<close>: the cell keeps the type \<^verbatim>\<open>'func'\<close>, since an assignment changes the value only.\<close>

definition numberInFunctionCell :: "int memoryValue" where
  "numberInFunctionCell =
     \<lparr>mv_declarationType = ''variable'', mv_identifier = ''f'', mv_type = ''func'',
      mv_value = NumberLiteral 3, mv_internalType = None\<rparr>"

definition retypedCaller :: "int interp" where
  "retypedCaller =
     \<lparr>memory = [[(''f'', numberInFunctionCell)]], state = [], stdout = [], stderr = []\<rparr>"

section \<open>Notions used by the properties\<close>

text \<open>The two vector kinds, and the two kinds of value that
  \<^verbatim>\<open>executeBinaryExpression\<close> refuses as a right operand.\<close>

definition isVector :: "'n Value \<Rightarrow> bool" where
  "isVector v = (case v of Vector2Literal _ _ \<Rightarrow> True | Vector3Literal _ _ _ \<Rightarrow> True | _ \<Rightarrow> False)"

definition isCallable :: "'n Value \<Rightarrow> bool" where
  "isCallable v = (vtype v = ''FuncDeclaration'' \<or> vtype v = ''InternalFuncDeclaration'')"

text \<open>The cell that lines 157 to 183 of \<^verbatim>\<open>executeDeclaration\<close> build for the value \<open>v\<close>.\<close>

definition declaredCell ::
  "'n host \<Rightarrow> string \<Rightarrow> string \<Rightarrow> dataTypeNode option \<Rightarrow> bool \<Rightarrow> 'n Value \<Rightarrow> 'n memoryValue" where
  "declaredCell h typeOfAssignment ident dataType isOptional v =
     (let type = (case dataType of Some d \<Rightarrow> dt_value d | None \<Rightarrow> valueToDataType h (vtype v))
      in if isOptional
         then \<lparr>mv_declarationType = typeOfAssignment, mv_identifier = ident,
               mv_type = ''optional'', mv_value = v,
               mv_internalType =
                 Some (case dataType of
                         Some d \<Rightarrow> (case dt_internalType d of Some t \<Rightarrow> t | None \<Rightarrow> type)
                       | None \<Rightarrow> type)\<rparr>
         else \<lparr>mv_declarationType = typeOfAssignment, mv_identifier = ident,
               mv_type = type, mv_value = v, mv_internalType = None\<rparr>)"

text \<open>A computation is silent when it leaves what \<^verbatim>\<open>stdout\<close> has received as it was; a host
  is silent when its internal functions write nothing to \<^verbatim>\<open>stdout\<close>.\<close>

definition silent :: "('n, 'a) comp \<Rightarrow> bool" where
  "silent m = (\<forall>s r s'. m s = Some (r, s') \<longrightarrow> stdout s' = stdout s)"

definition silentHost :: "'n host \<Rightarrow> bool" where
  "silentHost h = (\<forall>fn m. fst (snd (snd (executeInternalFunc h fn m))) = [])"

definition silentMethods :: "'n methods \<Rightarrow> bool" where
  "silentMethods this =
     ((\<forall>body. silent (m_executeCodeBlock this body))
    \<and> (\<forall>statement. silent (m_executeStatement this statement))
    \<and> (\<forall>c t f. silent (m_executeIfStatementNode this c t f))
    \<and> (\<forall>d i e t opt. silent (m_executeDeclaration this d i e t opt))
    \<and> (\<forall>i e. silent (m_executeAssignment this i e))
    \<and> (\<forall>i args. silent (m_executeFunctionCall this i args))
    \<and> (\<forall>e. silent (m_executeExpressionNode this e))
    \<and> (\<forall>e a. silent (m_executeAccessorExpression this e a))
    \<and> (\<forall>l operator r. silent (m_executeBinaryExpression this l operator r)))"

text \<open>A computation that never ends by throwing the \<^verbatim>\<open>Return\<close> signal; a host whose
  routines never throw it.\<close>

definition noReturn :: "('n, 'a) comp \<Rightarrow> bool" where
  "noReturn m = (\<forall>s d s'. m s \<noteq> Some (Inl (ControlFlowException ''Return'' d), s'))"

definition returnFreeHost :: "'n host \<Rightarrow> bool" where
  "returnFreeHost h =
     ((\<forall>fn m d. fst (executeInternalFunc h fn m) \<noteq> Inl (ControlFlowException ''Return'' d))
    \<and> (\<forall>ident v d. executeStaticFunction h ident v \<noteq> Inl (ControlFlowException ''Return'' d)))"

definition noReturnMethods :: "'n methods \<Rightarrow> bool" where
  "noReturnMethods this =
     ((\<forall>i args. noReturn (m_executeFunctionCall this i args))
    \<and> (\<forall>e. noReturn (m_executeExpressionNode this e))
    \<and> (\<forall>e a. noReturn (m_executeAccessorExpression this e a))
    \<and> (\<forall>l operator r. noReturn (m_executeBinaryExpression this l operator r)))"

text \<open>
  An outcome after which a function call has nothing left to release: a value, or the
  \<^verbatim>\<open>Return\<close> signal. A computation is balanced when, with such an outcome, it leaves the
  scope stack as deep as it found it and the State stack as it was. A host keeps the
  scopes when its internal functions give back as many scopes as they were given.
\<close>

fun released :: "'n error + 'a \<Rightarrow> bool" where
  "released (Inr _) = True"
| "released (Inl (ControlFlowException t d)) = (t = ''Return'')"
| "released (Inl _) = False"

definition balanced :: "('n, 'a) comp \<Rightarrow> bool" where
  "balanced m =
     (\<forall>s r s'. m s = Some (r, s') \<and> released r
        \<longrightarrow> length (memory s') = length (memory s) \<and> state s' = state s)"

definition scopeKeepingHost :: "'n host \<Rightarrow> bool" where
  "scopeKeepingHost h = (\<forall>fn m. length (fst (snd (executeInternalFunc h fn m))) = length m)"

definition balancedMethods :: "'n methods \<Rightarrow> bool" where
  "balancedMethods this =
     ((\<forall>body. balanced (m_executeCodeBlock this body))
    \<and> (\<forall>statement. balanced (m_executeStatement this statement))
    \<and> (\<forall>c t f. balanced (m_executeIfStatementNode this c t f))
    \<and> (\<forall>d i e t opt. balanced (m_executeDeclaration this d i e t opt))
    \<and> (\<forall>i e. balanced (m_executeAssignment this i e))
    \<and> (\<forall>i args. balanced (m_executeFunctionCall this i args))
    \<and> (\<forall>e. balanced (m_executeExpressionNode this e))
    \<and> (\<forall>e a. balanced (m_executeAccessorExpression this e a))
    \<and> (\<forall>l operator r. balanced (m_executeBinaryExpression this l operator r)))"

section \<open>Unfolding the interpreter\<close>

text \<open>A method of the interpreter with fuel \<open>Suc n\<close> is the method's definition over the
  interpreter with fuel \<open>n\<close>; with no fuel a method does not return.\<close>

lemma Interpreter_Suc:
  "m_executeModule (Interpreter (Suc n) h) = executeModule (Interpreter n h) h"
  "m_executeAllTopImports (Interpreter (Suc n) h) = executeAllTopImports (Interpreter n h)"
  "m_executeImportNode (Interpreter (Suc n) h) = executeImportNode (Interpreter n h) h"
  "m_executeCodeBlock (Interpreter (Suc n) h) = executeCodeBlock (Interpreter n h)"
  "m_executeStatement (Interpreter (Suc n) h) = executeStatement (Interpreter n h)"
  "m_executeIfStatementNode (Interpreter (Suc n) h) = executeIfStatementNode (Interpreter n h)"
  "m_executeDeclaration (Interpreter (Suc n) h) = executeDeclaration (Interpreter n h) h"
  "m_executeAssignment (Interpreter (Suc n) h) = executeAssignment (Interpreter n h)"
  "m_executeFunctionCall (Interpreter (Suc n) h) = executeFunctionCall (Interpreter n h) h"
  "m_executeExpressionNode (Interpreter (Suc n) h) = executeExpressionNode (Interpreter n h)"
  "m_executeAccessorExpression (Interpreter (Suc n) h) = executeAccessorExpression (Interpreter n h) h"
  "m_executeBinaryExpression (Interpreter (Suc n) h) = executeBinaryExpression (Interpreter n h) h"
  by simp_all

lemma Interpreter_0:
  "m_executeModule (Interpreter 0 h) tree s = None"
  "m_executeAllTopImports (Interpreter 0 h) tree s = None"
  "m_executeImportNode (Interpreter 0 h) path s = None"
  "m_executeCodeBlock (Interpreter 0 h) body s = None"
  "m_executeStatement (Interpreter 0 h) statement s = None"
  "m_executeIfStatementNode (Interpreter 0 h) condition t f s = None"
  "m_executeDeclaration (Interpreter 0 h) d ident expr dataType isOptional s = None"
  "m_executeAssignment (Interpreter 0 h) ident expr s = None"
  "m_executeFunctionCall (Interpreter 0 h) ident args s = None"
  "m_executeExpressionNode (Interpreter 0 h) expr s = None"
  "m_executeAccessorExpression (Interpreter 0 h) expr val s = None"
  "m_executeBinaryExpression (Interpreter 0 h) left operator right s = None"
  by (simp_all add: exhausted_def)

lemma Interpreter_numeral:
  "m_executeModule (Interpreter (numeral k) h) = executeModule (Interpreter (pred_numeral k) h) h"
  "m_executeAllTopImports (Interpreter (numeral k) h) = executeAllTopImports (Interpreter (pred_numeral k) h)"
  "m_executeImportNode (Interpreter (numeral k) h) = executeImportNode (Interpreter (pred_numeral k) h) h"
  "m_executeCodeBlock (Interpreter (numeral k) h) = executeCodeBlock (Interpreter (pred_numeral k) h)"
  "m_executeStatement (Interpreter (numeral k) h) = executeStatement (Interpreter (pred_numeral k) h)"
  "m_executeIfStatementNode (Interpreter (numeral k) h) = executeIfStatementNode (Interpreter (pred_numeral k) h)"
  "m_executeDeclaration (Interpreter (numeral k) h) = executeDeclaration (Interpreter (pred_numeral k) h) h"
  "m_executeAssignment (Interpreter (numeral k) h) = executeAssignment (Interpreter (pred_numeral k) h)"
  "m_executeFunctionCall (Interpreter (numeral k) h) = executeFunctionCall (Interpreter (pred_numeral k) h) h"
  "m_executeExpressionNode (Interpreter (numeral k) h) = executeExpressionNode (Interpreter (pred_numeral k) h)"
  "m_executeAccessorExpression (Interpreter (numeral k) h) = executeAccessorExpression (Interpreter (pred_numeral k) h) h"
  "m_executeBinaryExpression (Interpreter (numeral k) h) = executeBinaryExpression (Interpreter (pred_numeral k) h) h"
  by (simp_all add: numeral_eq_Suc)

declare Interpreter.simps [simp del]
declare Interpreter_numeral [simp]
declare Interpreter_Suc [simp]
declare Interpreter_0 [simp]

section \<open>Evaluation of closed programs\<close>

lemmas run_defs = andThen_def ret_def throw_def getCell_def setCell_def updateCell_def perform_def

lemma showNat_small: "showNat 0 = ''0''" "showNat (Suc 0) = ''1''" "showNat 2 = ''2''"
  by (simp_all add: showNat.simps digitChar_def)

section \<open>Nothing below the module level writes a statement's value\<close>

lemma silent_ret: "silent (ret a)"
  by (simp add: silent_def ret_def)

lemma silent_throw: "silent (throw e)"
  by (simp add: silent_def throw_def)

lemma silent_andThen:
  assumes "silent m" and "\<And>a. silent (f a)"
  shows "silent (andThen m f)"
  unfolding silent_def
proof (intro allI impI)
  fix s r s'
  assume run: "andThen m f s = Some (r, s')"
  show "stdout s' = stdout s"
  proof (cases "m s")
    case None
    with run show ?thesis by (simp add: andThen_def)
  next
    case (Some p)
    obtain res s1 where p: "p = (res, s1)" by (cases p)
    have first: "stdout s1 = stdout s"
      using assms(1) Some p by (simp add: silent_def)
    show ?thesis
    proof (cases res)
      case (Inl e)
      with run Some p first show ?thesis by (simp add: andThen_def)
    next
      case (Inr a)
      with run Some p have "f a s1 = Some (r, s')" by (simp add: andThen_def)
      with assms(2) [of a] have "stdout s' = stdout s1" by (simp add: silent_def)
      with first show ?thesis by simp
    qed
  qed
qed

lemma silent_perform:
  assumes "\<And>s. stdout (g s) = stdout s"
  shows "silent (perform g)"
  using assms by (auto simp add: silent_def perform_def)

lemma silent_getCell: "silent (getCell ident)"
  by (auto simp add: silent_def getCell_def split: sum.splits)

lemma silent_setCell: "silent (setCell ident c)"
  by (auto simp add: silent_def setCell_def split: sum.splits)

lemma silent_updateCell: "silent (updateCell ident v)"
  by (auto simp add: silent_def updateCell_def split: sum.splits)

lemma silent_catchReturn:
  assumes "silent m"
  shows "silent (catchReturn m)"
  using assms
  by (auto simp add: silent_def catchReturn_def split: option.splits sum.splits error.splits if_splits)

lemma silent_callInternalFunc:
  assumes "silentHost h"
  shows "silent (callInternalFunc h fn)"
  unfolding silent_def
proof (intro allI impI)
  fix s r s'
  assume run: "callInternalFunc h fn s = Some (r, s')"
  obtain res m out err where e: "executeInternalFunc h fn (memory s) = (res, m, out, err)"
    by (cases "executeInternalFunc h fn (memory s)") auto
  have "fst (snd (snd (executeInternalFunc h fn (memory s)))) = []"
    using assms by (simp add: silentHost_def)
  with e have "out = []" by simp
  with run e show "stdout s' = stdout s"
    by (auto simp add: callInternalFunc_def)
qed

lemma silent_unwrapLeft: "silent (unwrapLeft left)"
  by (cases left) (simp_all add: unwrapLeft_def silent_andThen silent_getCell silent_throw silent_ret)

lemmas silent_intros =
  silent_ret silent_throw silent_andThen silent_perform silent_getCell silent_setCell
  silent_updateCell silent_catchReturn silent_unwrapLeft

lemma silent_executeCodeBlock:
  assumes "silentMethods this"
  shows "silent (executeCodeBlock this body)"
proof (induction body)
  case Nil
  show ?case by (simp add: silent_ret)
next
  case (Cons statement rest)
  have "silent (m_executeStatement this statement)"
    using assms by (simp add: silentMethods_def)
  with Cons show ?case
    by (auto intro!: silent_intros split: option.splits)
qed

lemma silent_executeStatement:
  assumes "silentMethods this"
  shows "silent (executeStatement this statement)"
  using assms
  by (cases statement) (auto simp add: silentMethods_def intro!: silent_intros)

lemma silent_executeIfStatementNode:
  assumes "silentMethods this"
  shows "silent (executeIfStatementNode this c t f)"
  using assms
  by (auto simp add: executeIfStatementNode_def silentMethods_def intro!: silent_intros
      split: Value.splits option.splits)

lemma silent_executeDeclaration:
  assumes "silentMethods this"
  shows "silent (executeDeclaration this h d i e t opt)"
  using assms
  by (auto simp add: executeDeclaration_def silentMethods_def Let_def intro!: silent_intros)

lemma silent_executeAssignment:
  assumes "silentMethods this"
  shows "silent (executeAssignment this i e)"
  using assms
  by (auto simp add: executeAssignment_def silentMethods_def intro!: silent_intros)

lemma silent_bindParams:
  assumes "silentMethods this"
  shows "silent (bindParams this h params args)"
proof (induction params arbitrary: args)
  case Nil
  show ?case by (simp add: silent_ret)
next
  case (Cons param params)
  show ?case
  proof (cases args)
    case Nil
    then show ?thesis by (simp add: silent_throw)
  next
    case (Cons arg rest)
    have "silent (m_executeExpressionNode this arg)"
      using assms by (simp add: silentMethods_def)
    with Cons Cons.IH [of rest] show ?thesis
      by (auto simp add: Let_def intro!: silent_intros)
  qed
qed

lemma silent_executeFunctionCall:
  assumes "silentMethods this" and "silentHost h"
  shows "silent (executeFunctionCall this h ident args)"
proof -
  have body: "\<And>b. silent (m_executeCodeBlock this b)"
    using assms(1) by (simp add: silentMethods_def)
  have enter: "\<And>s :: 'a interp. stdout (enterFunction s) = stdout s"
    by (simp add: enterFunction_def)
  have leave: "\<And>s :: 'a interp. stdout (leaveFunction s) = stdout s"
    by (simp add: leaveFunction_def)
  show ?thesis
    unfolding executeFunctionCall_def Let_def
    by (intro silent_andThen silent_getCell)
       (auto intro!: silent_intros silent_bindParams [OF assms(1)]
          silent_callInternalFunc [OF assms(2)] body enter leave split: Value.splits)
qed

lemma silent_executeExpressionNode:
  assumes "silentMethods this"
  shows "silent (executeExpressionNode this e)"
  using assms
  by (cases e) (auto simp add: silentMethods_def intro!: silent_intros split: Value.splits)

lemma silent_executeAccessorExpression:
  assumes "silentMethods this"
  shows "silent (executeAccessorExpression this h e a)"
  using assms
  by (auto simp add: executeAccessorExpression_def silentMethods_def Let_def
      intro!: silent_intros split: accessorValue.splits sum.splits)

lemma silent_executeBinaryExpression:
  assumes "silentMethods this"
  shows "silent (executeBinaryExpression this h l operator r)"
  using assms
  by (auto simp add: executeBinaryExpression_def silentMethods_def
      intro!: silent_intros split: sum.splits)

lemma silentMethods_exhausted: "silentMethods exhausted"
  by (simp add: silentMethods_def exhausted_def silent_def)

lemma silentMethods_Interpreter:
  assumes "silentHost h"
  shows "silentMethods (Interpreter n h)"
proof (induction n)
  case 0
  show ?case by (simp add: Interpreter.simps silentMethods_exhausted)
next
  case (Suc n)
  show ?case
    unfolding silentMethods_def
    by (simp add: silent_executeCodeBlock [OF Suc] silent_executeStatement [OF Suc]
        silent_executeIfStatementNode [OF Suc] silent_executeDeclaration [OF Suc]
        silent_executeAssignment [OF Suc] silent_executeFunctionCall [OF Suc assms]
        silent_executeExpressionNode [OF Suc] silent_executeAccessorExpression [OF Suc]
        silent_executeBinaryExpression [OF Suc])
qed

section \<open>The Return signal stops at the call\<close>

lemma noReturn_ret: "noReturn (ret a)"
  by (simp add: noReturn_def ret_def)

lemma noReturn_throw_RuntimeException: "noReturn (throw (RuntimeException message))"
  by (simp add: noReturn_def throw_def)

lemma noReturn_throw_Error: "noReturn (throw (Error message))"
  by (simp add: noReturn_def throw_def)

lemma noReturn_andThen:
  assumes "noReturn m" and "\<And>a. noReturn (f a)"
  shows "noReturn (andThen m f)"
  unfolding noReturn_def
proof (intro allI notI)
  fix s d s'
  assume run: "andThen m f s = Some (Inl (ControlFlowException ''Return'' d), s')"
  show False
  proof (cases "m s")
    case None
    with run show ?thesis by (simp add: andThen_def)
  next
    case (Some p)
    obtain res s1 where p: "p = (res, s1)" by (cases p)
    show ?thesis
    proof (cases res)
      case (Inl e)
      with run Some p have "m s = Some (Inl (ControlFlowException ''Return'' d), s')"
        by (simp add: andThen_def)
      with assms(1) show ?thesis by (simp add: noReturn_def)
    next
      case (Inr a)
      with run Some p have "f a s1 = Some (Inl (ControlFlowException ''Return'' d), s')"
        by (simp add: andThen_def)
      with assms(2) [of a] show ?thesis by (simp add: noReturn_def)
    qed
  qed
qed

lemma noReturn_perform: "noReturn (perform g)"
  by (simp add: noReturn_def perform_def)

lemma noReturn_getCell: "noReturn (getCell ident)"
proof -
  have "\<And>m :: 'a scope list. \<forall>d. Memory_get ident m \<noteq> Inl (ControlFlowException ''Return'' d)"
  proof -
    fix m :: "'a scope list"
    show "\<forall>d. Memory_get ident m \<noteq> Inl (ControlFlowException ''Return'' d)"
      by (induction m) (auto split: option.splits)
  qed
  then show ?thesis
    by (auto simp add: noReturn_def getCell_def split: sum.splits)
qed

lemma noReturn_setCell: "noReturn (setCell ident c)"
proof -
  have "\<And>m :: 'a scope list. \<forall>d. Memory_set ident c m \<noteq> Inl (ControlFlowException ''Return'' d)"
  proof -
    fix m :: "'a scope list"
    show "\<forall>d. Memory_set ident c m \<noteq> Inl (ControlFlowException ''Return'' d)"
      by (cases m) (auto split: option.splits)
  qed
  then show ?thesis
    by (auto simp add: noReturn_def setCell_def split: sum.splits)
qed

lemma noReturn_catchReturn: "noReturn (catchReturn m)"
  by (auto simp add: noReturn_def catchReturn_def
      split: option.splits sum.splits error.splits if_splits)

lemma noReturn_callInternalFunc:
  assumes "returnFreeHost h"
  shows "noReturn (callInternalFunc h fn)"
  unfolding noReturn_def
proof (intro allI notI)
  fix s d s'
  assume run: "callInternalFunc h fn s = Some (Inl (ControlFlowException ''Return'' d), s')"
  obtain res m out err where e: "executeInternalFunc h fn (memory s) = (res, m, out, err)"
    by (cases "executeInternalFunc h fn (memory s)") auto
  have "fst (executeInternalFunc h fn (memory s)) \<noteq> Inl (ControlFlowException ''Return'' d)"
    using assms by (simp add: returnFreeHost_def)
  with run e show False
    by (auto simp add: callInternalFunc_def)
qed

lemma noReturn_unwrapLeft: "noReturn (unwrapLeft left)"
  by (cases left)
     (simp_all add: unwrapLeft_def noReturn_andThen noReturn_getCell
        noReturn_throw_RuntimeException noReturn_ret)

lemma binaryOperator_raises_RuntimeException:
  assumes "binaryOperator h operator l r = Inl e"
  shows "isRuntimeException e"
  using assms
  by (auto simp add: binaryOperator_def crossType_def booleanOperator_def numberOperator_def
      textOperator_def split: Value.splits if_splits option.splits)

lemmas noReturn_intros =
  noReturn_ret noReturn_throw_RuntimeException noReturn_throw_Error noReturn_andThen
  noReturn_perform noReturn_getCell noReturn_setCell noReturn_catchReturn noReturn_unwrapLeft

lemma noReturn_bindParams:
  assumes "noReturnMethods this"
  shows "noReturn (bindParams this h params args)"
proof (induction params arbitrary: args)
  case Nil
  show ?case by (simp add: noReturn_ret)
next
  case (Cons param params)
  show ?case
  proof (cases args)
    case Nil
    then show ?thesis by (simp add: noReturn_throw_Error)
  next
    case (Cons arg rest)
    have "noReturn (m_executeExpressionNode this arg)"
      using assms by (simp add: noReturnMethods_def)
    with Cons Cons.IH [of rest] show ?thesis
      by (auto simp add: Let_def intro!: noReturn_intros)
  qed
qed

lemma noReturn_executeFunctionCall:
  assumes "noReturnMethods this" and "returnFreeHost h"
  shows "noReturn (executeFunctionCall this h ident args)"
  unfolding executeFunctionCall_def Let_def
  by (intro noReturn_andThen noReturn_getCell)
     (auto intro!: noReturn_intros noReturn_bindParams [OF assms(1)]
        noReturn_callInternalFunc [OF assms(2)] split: Value.splits)

lemma noReturn_executeExpressionNode:
  assumes "noReturnMethods this"
  shows "noReturn (executeExpressionNode this e)"
  using assms
  by (cases e) (auto simp add: noReturnMethods_def intro!: noReturn_intros split: Value.splits)

lemma noReturn_executeAccessorExpression:
  assumes "noReturnMethods this" and "returnFreeHost h"
  shows "noReturn (executeAccessorExpression this h e a)"
proof -
  have static: "\<And>ident v x. executeStaticFunction h ident v = Inl x \<Longrightarrow> noReturn (throw x)"
    using assms(2) by (auto simp add: returnFreeHost_def noReturn_def throw_def)
  show ?thesis
    using assms(1)
    by (auto simp add: executeAccessorExpression_def noReturnMethods_def Let_def
        intro!: noReturn_intros static split: accessorValue.splits sum.splits)
qed

lemma noReturn_executeBinaryExpression:
  assumes "noReturnMethods this"
  shows "noReturn (executeBinaryExpression this h l operator r)"
proof -
  have raised: "\<And>a b x. binaryOperator h operator a b = Inl x \<Longrightarrow> noReturn (throw x)"
  proof -
    fix a b x
    assume "binaryOperator h operator a b = Inl x"
    then have "isRuntimeException x" by (rule binaryOperator_raises_RuntimeException)
    then show "noReturn (throw x)"
      by (cases x) (simp_all add: noReturn_throw_RuntimeException)
  qed
  show ?thesis
    using assms
    by (auto simp add: executeBinaryExpression_def noReturnMethods_def
        intro!: noReturn_intros raised split: sum.splits)
qed

lemma noReturnMethods_Interpreter:
  assumes "returnFreeHost h"
  shows "noReturnMethods (Interpreter n h)"
proof (induction n)
  case 0
  show ?case by (simp add: Interpreter.simps noReturnMethods_def exhausted_def noReturn_def)
next
  case (Suc n)
  show ?case
    unfolding noReturnMethods_def
    by (simp add: noReturn_executeFunctionCall [OF Suc assms]
        noReturn_executeExpressionNode [OF Suc]
        noReturn_executeAccessorExpression [OF Suc assms]
        noReturn_executeBinaryExpression [OF Suc])
qed

section \<open>A call that returns releases its scope and its frame\<close>

text \<open>The normal exit of \<^verbatim>\<open>executeFunctionCall\<close> (lines 260 and 261), by induction on the
  fuel over all methods below the module level.\<close>

lemma balanced_ret: "balanced (ret a)"
  by (simp add: balanced_def ret_def)

lemma balanced_throw: "balanced (throw e)"
  by (simp add: balanced_def throw_def)

lemma balanced_andThen:
  assumes "balanced m" and "\<And>a. balanced (f a)"
  shows "balanced (andThen m f)"
  unfolding balanced_def
proof (intro allI impI)
  fix s r s'
  assume "andThen m f s = Some (r, s') \<and> released r"
  then have run: "andThen m f s = Some (r, s')" and rel: "released r" by simp_all
  show "length (memory s') = length (memory s) \<and> state s' = state s"
  proof (cases "m s")
    case None
    with run show ?thesis by (simp add: andThen_def)
  next
    case (Some p)
    obtain res s1 where p: "p = (res, s1)" by (cases p)
    show ?thesis
    proof (cases res)
      case (Inl e)
      with run Some p have m: "m s = Some (Inl e, s')" and r: "r = Inl e"
        by (simp_all add: andThen_def)
      from rel r have "released (Inl e :: 'a error + 'b)"
        by (cases e) simp_all
      with assms(1) m show ?thesis unfolding balanced_def by blast
    next
      case (Inr a)
      with Some p have first: "m s = Some (Inr a, s1)" by simp
      with assms(1) have keep: "length (memory s1) = length (memory s) \<and> state s1 = state s"
        unfolding balanced_def by (metis released.simps(1))
      from run first have "f a s1 = Some (r, s')" by (simp add: andThen_def)
      with assms(2) [of a] rel have "length (memory s') = length (memory s1) \<and> state s' = state s1"
        unfolding balanced_def by blast
      with keep show ?thesis by simp
    qed
  qed
qed

lemma balanced_getCell: "balanced (getCell ident)"
  by (auto simp add: balanced_def getCell_def split: sum.splits)

lemma balanced_setCell: "balanced (setCell ident c)"
proof -
  have "\<And>m m' :: 'a scope list. Memory_set ident c m = Inr m' \<Longrightarrow> length m' = length m"
  proof -
    fix m m' :: "'a scope list"
    assume "Memory_set ident c m = Inr m'"
    then show "length m' = length m"
      by (cases m) (auto split: option.splits)
  qed
  then show ?thesis
    by (auto simp add: balanced_def setCell_def split: sum.splits)
qed

lemma Memory_update_length:
  "Memory_update ident v m = Inr m' \<Longrightarrow> length m' = length m"
  by (induction m arbitrary: m') (auto split: option.splits if_splits sum.splits)

lemma balanced_updateCell: "balanced (updateCell ident v)"
  by (auto simp add: balanced_def updateCell_def split: sum.splits dest: Memory_update_length)

lemma balanced_catchReturn:
  assumes "balanced m"
  shows "balanced (catchReturn m)"
  unfolding balanced_def
proof (intro allI impI)
  fix s r s'
  assume "catchReturn m s = Some (r, s') \<and> released (r :: 'a error + 'a Value)"
  then have run: "catchReturn m s = Some (r, s')" and rel: "released r" by simp_all
  from run rel obtain r0 :: "'a error + unit" where "m s = Some (r0, s')" and "released r0"
    by (auto simp add: catchReturn_def split: option.splits sum.splits error.splits if_splits)
  with assms show "length (memory s') = length (memory s) \<and> state s' = state s"
    unfolding balanced_def by blast
qed

lemma balanced_callInternalFunc:
  assumes "scopeKeepingHost h"
  shows "balanced (callInternalFunc h fn)"
  unfolding balanced_def
proof (intro allI impI)
  fix s r s'
  assume "callInternalFunc h fn s = Some (r, s') \<and> released r"
  then have run: "callInternalFunc h fn s = Some (r, s')" by simp
  obtain res m out err where e: "executeInternalFunc h fn (memory s) = (res, m, out, err)"
    by (cases "executeInternalFunc h fn (memory s)") auto
  have "length (fst (snd (executeInternalFunc h fn (memory s)))) = length (memory s)"
    using assms by (simp add: scopeKeepingHost_def)
  with run e show "length (memory s') = length (memory s) \<and> state s' = state s"
    by (auto simp add: callInternalFunc_def)
qed

lemma balanced_unwrapLeft: "balanced (unwrapLeft left)"
  by (cases left)
     (simp_all add: unwrapLeft_def balanced_andThen balanced_getCell balanced_throw balanced_ret)

lemmas balanced_intros =
  balanced_ret balanced_throw balanced_andThen balanced_getCell balanced_setCell
  balanced_updateCell balanced_catchReturn balanced_unwrapLeft

lemma balanced_executeCodeBlock:
  assumes "balancedMethods this"
  shows "balanced (executeCodeBlock this body)"
proof (induction body)
  case Nil
  show ?case by (simp add: balanced_ret)
next
  case (Cons statement rest)
  have "balanced (m_executeStatement this statement)"
    using assms by (simp add: balancedMethods_def)
  with Cons show ?case
    by (auto intro!: balanced_intros split: option.splits)
qed

lemma balanced_executeStatement:
  assumes "balancedMethods this"
  shows "balanced (executeStatement this statement)"
  using assms
  by (cases statement) (auto simp add: balancedMethods_def intro!: balanced_intros)

lemma balanced_executeIfStatementNode:
  assumes "balancedMethods this"
  shows "balanced (executeIfStatementNode this c t f)"
  using assms
  by (auto simp add: executeIfStatementNode_def balancedMethods_def intro!: balanced_intros
      split: Value.splits option.splits)

lemma balanced_executeDeclaration:
  assumes "balancedMethods this"
  shows "balanced (executeDeclaration this h d i e t opt)"
  using assms
  by (auto simp add: executeDeclaration_def balancedMethods_def Let_def intro!: balanced_intros)

lemma balanced_executeAssignment:
  assumes "balancedMethods this"
  shows "balanced (executeAssignment this i e)"
  using assms
  by (auto simp add: executeAssignment_def balancedMethods_def intro!: balanced_intros)

lemma balanced_bindParams:
  assumes "balancedMethods this"
  shows "balanced (bindParams this h params args)"
proof (induction params arbitrary: args)
  case Nil
  show ?case by (simp add: balanced_ret)
next
  case (Cons param params)
  show ?case
  proof (cases args)
    case Nil
    then show ?thesis by (simp add: balanced_throw)
  next
    case (Cons arg rest)
    have "balanced (m_executeExpressionNode this arg)"
      using assms by (simp add: balancedMethods_def)
    with Cons Cons.IH [of rest] show ?thesis
      by (auto simp add: Let_def intro!: balanced_intros)
  qed
qed

lemma andThen_assoc:
  "andThen (andThen m f) g = andThen m (\<lambda>a. andThen (f a) g)"
  by (rule ext) (simp add: andThen_def split: option.splits sum.splits)

lemma andThen_throw: "andThen (throw e) f = throw e"
  by (rule ext) (simp add: andThen_def throw_def)

lemma balanced_bracket:
  assumes "noReturn m" and "balanced m"
  shows "balanced (andThen (perform enterFunction) (\<lambda>_.
           andThen m (\<lambda>returnedValue. andThen (perform leaveFunction) (\<lambda>_. ret returnedValue))))"
  unfolding balanced_def
proof (intro allI impI)
  fix s r s'
  assume "andThen (perform enterFunction) (\<lambda>_.
           andThen m (\<lambda>returnedValue. andThen (perform leaveFunction) (\<lambda>_. ret returnedValue))) s
          = Some (r, s') \<and> released r"
  then have run: "andThen m (\<lambda>returnedValue.
                    andThen (perform leaveFunction) (\<lambda>_. ret returnedValue)) (enterFunction s)
                  = Some (r, s')"
    and rel: "released r"
    by (simp_all add: andThen_def perform_def)
  show "length (memory s') = length (memory s) \<and> state s' = state s"
  proof (cases "m (enterFunction s)")
    case None
    with run show ?thesis by (simp add: andThen_def)
  next
    case (Some p)
    obtain res s1 where p: "p = (res, s1)" by (cases p)
    show ?thesis
    proof (cases res)
      case (Inl e)
      with run Some p have r: "r = Inl e" and m: "m (enterFunction s) = Some (Inl e, s1)"
        by (simp_all add: andThen_def)
      from rel r obtain d where "e = ControlFlowException ''Return'' d"
        by (cases e) simp_all
      with m assms(1) show ?thesis by (simp add: noReturn_def)
    next
      case (Inr v)
      with Some p have m: "m (enterFunction s) = Some (Inr v, s1)" by simp
      with assms(2) have keep: "length (memory s1) = length (memory (enterFunction s))
                                \<and> state s1 = state (enterFunction s)"
        unfolding balanced_def by (metis released.simps(1))
      from run m have "s' = leaveFunction s1"
        by (simp add: andThen_def perform_def ret_def)
      with keep show ?thesis
        by (simp add: enterFunction_def leaveFunction_def createScope_def clearScope_def
            state_push_def state_pop_def)
    qed
  qed
qed

lemma balanced_if:
  assumes "balanced a" and "balanced b"
  shows "balanced (if P then a else b)"
  using assms by simp

lemma balanced_call:
  assumes "noReturn bind" and "balanced bind" and "noReturn body" and "balanced body"
  shows "balanced (andThen (perform enterFunction) (\<lambda>_.
           if P then throw (RuntimeException message)
           else andThen bind (\<lambda>_.
                  andThen body (\<lambda>returnedValue.
                    andThen (perform leaveFunction) (\<lambda>_. ret returnedValue)))))"
proof -
  have shape:
    "(if P then throw (RuntimeException message)
      else andThen bind (\<lambda>_.
             andThen body (\<lambda>returnedValue.
               andThen (perform leaveFunction) (\<lambda>_. ret returnedValue))))
     = andThen (if P then throw (RuntimeException message) else andThen bind (\<lambda>_. body))
         (\<lambda>returnedValue. andThen (perform leaveFunction) (\<lambda>_. ret returnedValue))"
    by (simp add: andThen_assoc andThen_throw)
  have nr: "noReturn (if P then throw (RuntimeException message) else andThen bind (\<lambda>_. body))"
    using assms(1,3) by (simp add: noReturn_throw_RuntimeException noReturn_andThen)
  have bal: "balanced (if P then throw (RuntimeException message) else andThen bind (\<lambda>_. body))"
    using assms(2,4) by (simp add: balanced_throw balanced_andThen)
  show ?thesis
    unfolding shape by (rule balanced_bracket [OF nr bal])
qed

lemma balanced_executeFunctionCall:
  assumes "balancedMethods this" and "noReturnMethods this"
    and "scopeKeepingHost h" and "returnFreeHost h"
  shows "balanced (executeFunctionCall this h ident args)"
proof -
  have bal_fn: "\<And>fn. balanced
      (case fn of
         FuncDeclaration _ body \<Rightarrow> catchReturn (m_executeCodeBlock this body)
       | _ \<Rightarrow> throw (Error ''TypeError''))"
    using assms(1)
    by (auto simp add: balancedMethods_def intro!: balanced_intros split: Value.splits)
  have nr_fn: "\<And>fn. noReturn
      (case fn of
         FuncDeclaration _ body \<Rightarrow> catchReturn (m_executeCodeBlock this body)
       | _ \<Rightarrow> throw (Error ''TypeError''))"
    by (auto intro!: noReturn_intros split: Value.splits)
  have bal_body: "\<And>c. balanced
      (if mv_type c = ''internalFunc''
       then callInternalFunc h (mv_value c)
       else (case mv_value c of
               FuncDeclaration _ body \<Rightarrow> catchReturn (m_executeCodeBlock this body)
             | _ \<Rightarrow> throw (Error ''TypeError'')))"
    by (intro balanced_if balanced_callInternalFunc [OF assms(3)] bal_fn)
  have nr_body: "\<And>c. noReturn
      (if mv_type c = ''internalFunc''
       then callInternalFunc h (mv_value c)
       else (case mv_value c of
               FuncDeclaration _ body \<Rightarrow> catchReturn (m_executeCodeBlock this body)
             | _ \<Rightarrow> throw (Error ''TypeError'')))"
    using noReturn_callInternalFunc [OF assms(4)] nr_fn by simp
  show ?thesis
    unfolding executeFunctionCall_def Let_def
    by (intro balanced_andThen balanced_getCell balanced_if balanced_throw balanced_call
        noReturn_bindParams [OF assms(2)] balanced_bindParams [OF assms(1)] nr_body bal_body)
qed

lemma balanced_executeExpressionNode:
  assumes "balancedMethods this"
  shows "balanced (executeExpressionNode this e)"
  using assms
  by (cases e) (auto simp add: balancedMethods_def intro!: balanced_intros split: Value.splits)

lemma balanced_executeAccessorExpression:
  assumes "balancedMethods this"
  shows "balanced (executeAccessorExpression this h e a)"
  using assms
  by (auto simp add: executeAccessorExpression_def balancedMethods_def Let_def
      intro!: balanced_intros split: accessorValue.splits sum.splits)

lemma balanced_executeBinaryExpression:
  assumes "balancedMethods this"
  shows "balanced (executeBinaryExpression this h l operator r)"
  using assms
  by (auto simp add: executeBinaryExpression_def balancedMethods_def
      intro!: balanced_intros split: sum.splits)

lemma balancedMethods_Interpreter:
  assumes "scopeKeepingHost h" and "returnFreeHost h"
  shows "balancedMethods (Interpreter n h)"
proof (induction n)
  case 0
  show ?case by (simp add: Interpreter.simps balancedMethods_def exhausted_def balanced_def)
next
  case (Suc n)
  note nr = noReturnMethods_Interpreter [OF assms(2), of n]
  show ?case
    unfolding balancedMethods_def
    by (simp add: balanced_executeCodeBlock [OF Suc] balanced_executeStatement [OF Suc]
        balanced_executeIfStatementNode [OF Suc] balanced_executeDeclaration [OF Suc]
        balanced_executeAssignment [OF Suc] balanced_executeFunctionCall [OF Suc nr assms]
        balanced_executeExpressionNode [OF Suc] balanced_executeAccessorExpression [OF Suc]
        balanced_executeBinaryExpression [OF Suc])
qed

lemma call_that_returns_releases:
  assumes "scopeKeepingHost h" and "returnFreeHost h"
    and "m_executeFunctionCall (Interpreter n h) ident args s = Some (Inr v, s')"
  shows "length (memory s') = length (memory s) \<and> state s' = state s"
  using balancedMethods_Interpreter [OF assms(1,2), of n] assms(3)
  unfolding balancedMethods_def balanced_def by (metis released.simps(1))

section \<open>Operands of different kinds\<close>

lemma binaryOperator_differing_kinds:
  assumes "vtype l \<noteq> vtype r"
  shows "binaryOperator h operator l r = crossType operator l r"
  using assms by (cases l; cases r) (simp_all add: binaryOperator_def)

lemma binaryOperator_vector:
  assumes "isVector l"
  shows "binaryOperator h operator l r = crossType operator l r"
  using assms by (cases l) (simp_all add: binaryOperator_def isVector_def)

section \<open>The properties\<close>

text \<open>
  The error names of the specification stand for these messages of the source:
  \<^verbatim>\<open>InvalidBinaryExpression\<close> for \<^verbatim>\<open>'Unable to parse binary expression'\<close> (line 466),
  \<^verbatim>\<open>InvalidBinaryOperand\<close> for \<^verbatim>\<open>'Invalid binary expression'\<close> (lines 311 and 323),
  \<^verbatim>\<open>NonBooleanCondition\<close> for \<^verbatim>\<open>'Invalid boolean expression'\<close> (line 139) and
  \<^verbatim>\<open>ArityMismatch\<close> for \<^verbatim>\<open>'Expecting ... arguments but got ... arguments'\<close> (line 218).
\<close>

text \<open>
  C1. Claim: the memory scope and the State frame pushed at the entry of a function call
  are released on every exit path, so the depth of the scope stack is the same before
  and after the call even when the call raises.

  The source releases both at lines 260 and 261 only, which a thrown exception skips
  (a call that returns a value does release both: \<open>call_that_returns_releases\<close> above).
  Here \<^verbatim>\<open>f\<close> has no parameter and is called with one argument: the call raises the arity
  error after lines 212 and 213, and leaves two scopes where there was one, and one
  State frame where there was none. The second equation runs the whole program, the
  declaration of \<^verbatim>\<open>f\<close> and the call, through \<^verbatim>\<open>execute\<close>: the error is reported and the
  interpreter keeps the scope and the frame of the call.
\<close>

theorem C1_arity_error_leaves_scope_and_frame:
  "executeFunctionCall (Interpreter 1 exampleHost) exampleHost ''f'' [Literal (TextLiteral ''a'')]
     \<lparr>memory = [[(''f'', idleFunction)]], state = [], stdout = [], stderr = []\<rparr>
   = Some (Inl (RuntimeException ''Expecting 0 arguments but got 1 arguments''),
           \<lparr>memory = [[], [(''f'', idleFunction)]], state = [''function''],
            stdout = [], stderr = []\<rparr>)
   \<and>
   execute 5 exampleHost
     [Declaration ''constant'' ''f'' (Literal (FuncDeclaration [] [])) None False,
      Expression (FuncCallNode ''f'' [Literal (TextLiteral ''a'')])]
     emptyInterp
   = Some (Inr (),
           \<lparr>memory = [[], [(''f'', idleFunction)]], state = [''function''], stdout = [],
            stderr = [''Expecting 0 arguments but got 1 arguments'']\<rparr>,
           [])"
  by (simp add: execute_def executeModule_def executeDeclaration_def executeFunctionCall_def
      run_defs enterFunction_def createScope_def clearMemory_def state_push_def idleFunction_def
      exampleHost_def emptyInterp_def showNat_small)

text \<open>
  C2. Claim: a declaration raises \<^verbatim>\<open>TypeMismatch\<close> when the type name of the value's kind
  differs from the declared type, and \<^verbatim>\<open>NullToNonOptional\<close> when the value is
  \<^verbatim>\<open>NothingLiteral\<close> and \<^verbatim>\<open>isOptional\<close> is false, so that a cell declared non-optional never
  holds \<^verbatim>\<open>NothingLiteral\<close>.

  \<^verbatim>\<open>executeDeclaration\<close> compares no types. On the example host a non-optional declaration
  of \<^verbatim>\<open>nothing\<close> returns and stores \<^verbatim>\<open>NothingLiteral\<close>, and a declaration of type
  \<^verbatim>\<open>number\<close> stores a text.
\<close>

theorem C2_declaration_stores_nothing_and_mismatch:
  "executeDeclaration (Interpreter 1 exampleHost) exampleHost ''constant'' ''x''
      (Literal NothingLiteral) None False emptyInterp
   = Some (Inr (), emptyInterp\<lparr>memory :=
       [[(''x'', \<lparr>mv_declarationType = ''constant'', mv_identifier = ''x'', mv_type = ''nothing'',
                 mv_value = NothingLiteral, mv_internalType = None\<rparr>)]]\<rparr>)
   \<and>
   executeDeclaration (Interpreter 1 exampleHost) exampleHost ''constant'' ''y''
      (Literal (TextLiteral ''a'')) (Some \<lparr>dt_value = ''number'', dt_internalType = None\<rparr>) False
      emptyInterp
   = Some (Inr (), emptyInterp\<lparr>memory :=
       [[(''y'', \<lparr>mv_declarationType = ''constant'', mv_identifier = ''y'', mv_type = ''number'',
                 mv_value = TextLiteral ''a'', mv_internalType = None\<rparr>)]]\<rparr>)"
  by (simp add: executeDeclaration_def run_defs exampleHost_def emptyInterp_def clearMemory_def)

text \<open>
  C2, as the code has it: a declaration checks no type. Whenever its expression
  evaluates to a value \<open>v\<close> and the identifier is not yet in the innermost scope, the
  declaration returns without an error and the cell it stores holds \<open>v\<close> itself, also when
  \<open>v\<close> is \<^verbatim>\<open>NothingLiteral\<close> and the declaration is not optional, and whatever the kind of
  \<open>v\<close>; the type of the cell is \<^verbatim>\<open>'optional'\<close> for an optional declaration, and otherwise the
  declared type or, without one, the type name of the kind of \<open>v\<close>.
\<close>

theorem C2_declaration_checks_no_type:
  assumes "m_executeExpressionNode (Interpreter n h) expr s = Some (Inr v, s')"
    and "memory s' = sc # rest"
    and "map_of sc ident = None"
  shows "executeDeclaration (Interpreter n h) h typeOfAssignment ident expr dataType isOptional s
         = Some (Inr (), s'\<lparr>memory :=
             ((ident, declaredCell h typeOfAssignment ident dataType isOptional v) # sc) # rest\<rparr>)
       \<and> Memory_get ident
           (((ident, declaredCell h typeOfAssignment ident dataType isOptional v) # sc) # rest)
         = Inr (declaredCell h typeOfAssignment ident dataType isOptional v)
       \<and> mv_value (declaredCell h typeOfAssignment ident dataType isOptional v) = v
       \<and> mv_type (declaredCell h typeOfAssignment ident dataType isOptional v) =
           (if isOptional then ''optional''
            else case dataType of Some d \<Rightarrow> dt_value d | None \<Rightarrow> valueToDataType h (vtype v))"
  using assms
  by (simp add: executeDeclaration_def run_defs declaredCell_def Let_def)

theorem C2_declaration_checks_no_type_witness:
  "m_executeExpressionNode (Interpreter 1 exampleHost) (Literal NothingLiteral) emptyInterp
     = Some (Inr NothingLiteral, emptyInterp)
   \<and> memory emptyInterp = [] # []
   \<and> map_of ([] :: int scope) ''x'' = None
   \<and> executeDeclaration (Interpreter 1 exampleHost) exampleHost ''constant'' ''x''
        (Literal NothingLiteral) None False emptyInterp
      = Some (Inr (), emptyInterp\<lparr>memory :=
          [[(''x'', declaredCell exampleHost ''constant'' ''x'' None False NothingLiteral)]]\<rparr>)
   \<and> mv_value (declaredCell exampleHost ''constant'' ''x'' None False NothingLiteral)
      = NothingLiteral"
proof -
  have e: "m_executeExpressionNode (Interpreter 1 exampleHost) (Literal NothingLiteral) emptyInterp
     = Some (Inr NothingLiteral, emptyInterp)"
    by (simp add: run_defs)
  have m: "memory emptyInterp = [] # []"
    by (simp add: emptyInterp_def clearMemory_def)
  have f: "map_of ([] :: int scope) ''x'' = None"
    by simp
  show ?thesis
    using C2_declaration_checks_no_type
      [OF e m f, where typeOfAssignment = "''constant''" and dataType = None and isOptional = False]
      e m f
    by simp
qed

text \<open>
  C3. Claim: the \<^verbatim>\<open>Return\<close> signal is never observable outside a function body: a return
  statement outside any function is rejected with \<^verbatim>\<open>ReturnOutsideFunction\<close>, and no call
  of \<^verbatim>\<open>execute\<close> propagates the signal to its caller.

  Nothing in the source looks at the State stack. A return in a branch of an
  if-statement at the top of a module leaves \<^verbatim>\<open>execute\<close> as the \<^verbatim>\<open>Return\<close> signal, which is
  no \<^verbatim>\<open>RuntimeException\<close> and is thrown again at line 55; a return statement at the top of
  a module is not rejected, its value is printed.
\<close>

theorem C3_return_leaves_execute:
  "execute 6 exampleHost
     [IfStatement (Literal (BooleanLiteral True)) [ReturnStatement (Literal (TextLiteral ''a''))] None]
     emptyInterp
   = Some (Inl (ControlFlowException ''Return'' (TextLiteral ''a'')), emptyInterp, [])
   \<and> execute 4 exampleHost [ReturnStatement (Literal (TextLiteral ''a''))] emptyInterp
   = Some (Inr (), emptyInterp\<lparr>stdout := [''a'']\<rparr>, [])"
  by (simp add: execute_def executeModule_def executeIfStatementNode_def run_defs system_stdout_def
      exampleHost_def emptyInterp_def clearMemory_def)

text \<open>
  C3, as the code has it: the \<^verbatim>\<open>Return\<close> signal raised in the body of a function is caught
  by the call of that function. On a host whose routines throw no \<^verbatim>\<open>Return\<close> signal, no
  function call and no evaluation of an expression ends with the \<^verbatim>\<open>Return\<close> signal,
  whatever the fuel. Outside a function a return statement is not rejected:
  \<^verbatim>\<open>executeStatement\<close> evaluates it as it evaluates an expression statement.
\<close>

theorem C3_return_caught_by_call_only:
  assumes "returnFreeHost h"
  shows "(\<forall>ident args s d s'.
            m_executeFunctionCall (Interpreter n h) ident args s
              \<noteq> Some (Inl (ControlFlowException ''Return'' d), s'))
       \<and> (\<forall>e s d s'.
            m_executeExpressionNode (Interpreter n h) e s
              \<noteq> Some (Inl (ControlFlowException ''Return'' d), s'))
       \<and> (\<forall>e s. executeStatement (Interpreter n h) (ReturnStatement e) s
                 = executeStatement (Interpreter n h) (Expression e) s)"
  using noReturnMethods_Interpreter [OF assms, of n]
  by (simp add: noReturnMethods_def noReturn_def)

text \<open>The witness: on the example host, a call of a function whose body is a single return
  statement gives the returned value, not the signal.\<close>

theorem C3_return_caught_by_call_only_witness:
  "returnFreeHost exampleHost
   \<and> m_executeFunctionCall (Interpreter 5 exampleHost) ''g'' []
       \<lparr>memory = [[(''g'', idleFunction\<lparr>mv_value :=
                      FuncDeclaration [] [ReturnStatement (Literal (TextLiteral ''a''))]\<rparr>)]],
        state = [], stdout = [], stderr = []\<rparr>
     = Some (Inr (TextLiteral ''a''),
         \<lparr>memory = [[(''g'', idleFunction\<lparr>mv_value :=
                      FuncDeclaration [] [ReturnStatement (Literal (TextLiteral ''a''))]\<rparr>)]],
          state = [], stdout = [], stderr = []\<rparr>)
   \<and> (\<forall>d s'. m_executeFunctionCall (Interpreter 5 exampleHost) ''g'' []
       \<lparr>memory = [[(''g'', idleFunction\<lparr>mv_value :=
                      FuncDeclaration [] [ReturnStatement (Literal (TextLiteral ''a''))]\<rparr>)]],
        state = [], stdout = [], stderr = []\<rparr>
       \<noteq> Some (Inl (ControlFlowException ''Return'' d), s'))"
proof -
  have h: "returnFreeHost exampleHost"
    by (simp add: returnFreeHost_def exampleHost_def)
  have run: "m_executeFunctionCall (Interpreter 5 exampleHost) ''g'' []
       \<lparr>memory = [[(''g'', idleFunction\<lparr>mv_value :=
                      FuncDeclaration [] [ReturnStatement (Literal (TextLiteral ''a''))]\<rparr>)]],
        state = [], stdout = [], stderr = []\<rparr>
     = Some (Inr (TextLiteral ''a''),
         \<lparr>memory = [[(''g'', idleFunction\<lparr>mv_value :=
                      FuncDeclaration [] [ReturnStatement (Literal (TextLiteral ''a''))]\<rparr>)]],
          state = [], stdout = [], stderr = []\<rparr>)"
    by (simp add: executeFunctionCall_def run_defs catchReturn_def enterFunction_def
        leaveFunction_def createScope_def clearScope_def state_push_def state_pop_def
        idleFunction_def)
  have caught: "\<forall>d s'. m_executeFunctionCall (Interpreter 5 exampleHost) ''g'' []
       \<lparr>memory = [[(''g'', idleFunction\<lparr>mv_value :=
                      FuncDeclaration [] [ReturnStatement (Literal (TextLiteral ''a''))]\<rparr>)]],
        state = [], stdout = [], stderr = []\<rparr>
       \<noteq> Some (Inl (ControlFlowException ''Return'' d), s')"
    using C3_return_caught_by_call_only [OF h, of 5] by blast
  from h run caught show ?thesis
    by blast
qed

text \<open>
  C4. Claim: \<^verbatim>\<open>executeModule\<close> treats the module it is given as read-only: the list of
  statements of the module is the same after the execution.

  Line 63 calls \<^verbatim>\<open>splice\<close>, which removes from \<^verbatim>\<open>moduleNode.statements\<close> the statements it
  returns (\<^verbatim>\<open>slice\<close> would copy them). A module of one expression statement is left with
  no statement, and running what is left prints nothing.
\<close>

theorem C4_module_statements_removed:
  "executeModule (Interpreter 3 exampleHost) exampleHost
     [Expression (Literal (TextLiteral ''a''))] emptyInterp
   = Some (Inr (), emptyInterp\<lparr>stdout := [''a'']\<rparr>, [])
   \<and>
   executeModule (Interpreter 3 exampleHost) exampleHost [] emptyInterp
   = Some (Inr (), emptyInterp, [])"
  by (simp add: executeModule_def run_defs system_stdout_def exampleHost_def emptyInterp_def)

text \<open>
  C5. Claim: every binary expression whose operands are vector literals raises
  \<^verbatim>\<open>InvalidBinaryExpression\<close>, for every operator, \<^verbatim>\<open>==\<close> and \<^verbatim>\<open>!=\<close> included.

  A \<^verbatim>\<open>Vector2Literal\<close> and a \<^verbatim>\<open>Vector3Literal\<close> are of different kinds, and the last \<^verbatim>\<open>if\<close> of
  \<^verbatim>\<open>executeBinaryExpression\<close> answers \<^verbatim>\<open>!=\<close> on different kinds with \<^verbatim>\<open>true\<close>.
\<close>

theorem C5_vectors_of_two_kinds_differ:
  "executeBinaryExpression (Interpreter 1 exampleHost) exampleHost
     (LeftValue (Vector2Literal 1 2)) ''!='' (Literal (Vector3Literal 1 2 3)) emptyInterp
   = Some (Inr (BooleanLiteral True), emptyInterp)"
  by (simp add: executeBinaryExpression_def unwrapLeft_def run_defs binaryOperator_def crossType_def)

text \<open>
  C5, as the code has it: a binary expression on two vector literals raises
  \<^verbatim>\<open>InvalidBinaryExpression\<close> for every operator other than \<^verbatim>\<open>==\<close> when the two vectors are of
  the same kind, and for every operator other than \<^verbatim>\<open>==\<close> and \<^verbatim>\<open>!=\<close> when they are of
  different kinds; on vectors of different kinds \<^verbatim>\<open>!=\<close> gives \<^verbatim>\<open>true\<close> and \<^verbatim>\<open>==\<close> gives
  \<^verbatim>\<open>false\<close>. (Nothing is said of \<^verbatim>\<open>==\<close> on two vectors of the same kind.)
\<close>

theorem C5_vector_operands:
  assumes "isVector l" and "isVector r"
    and "m_executeExpressionNode (Interpreter n h) right s = Some (Inr r, s')"
  shows "(operator \<noteq> ''=='' \<and> (vtype l = vtype r \<or> operator \<noteq> ''!='') \<longrightarrow>
            executeBinaryExpression (Interpreter n h) h (LeftValue l) operator right s
            = Some (Inl (RuntimeException ''Unable to parse binary expression''), s'))
       \<and> (vtype l \<noteq> vtype r \<and> operator = ''!='' \<longrightarrow>
            executeBinaryExpression (Interpreter n h) h (LeftValue l) operator right s
            = Some (Inr (BooleanLiteral True), s'))
       \<and> (vtype l \<noteq> vtype r \<and> operator = ''=='' \<longrightarrow>
            executeBinaryExpression (Interpreter n h) h (LeftValue l) operator right s
            = Some (Inr (BooleanLiteral False), s'))"
proof -
  have nc: "vtype r \<noteq> ''FuncDeclaration''" "vtype r \<noteq> ''InternalFuncDeclaration''"
    using assms(2) by (cases r; simp add: isVector_def)+
  show ?thesis
    using assms(3) nc
    by (simp add: executeBinaryExpression_def unwrapLeft_def run_defs
        binaryOperator_vector [OF assms(1)] crossType_def)
qed

text \<open>The witness: \<^verbatim>\<open>+\<close> on two vectors of one kind, \<^verbatim>\<open>!=\<close> and \<^verbatim>\<open>==\<close> on vectors of two
  kinds.\<close>

theorem C5_vector_operands_witness:
  "isVector (Vector2Literal (1::int) 2) \<and> isVector (Vector2Literal (3::int) 4)
   \<and> isVector (Vector3Literal (1::int) 2 3)
   \<and> m_executeExpressionNode (Interpreter 1 exampleHost) (Literal (Vector2Literal 3 4)) emptyInterp
       = Some (Inr (Vector2Literal 3 4), emptyInterp)
   \<and> m_executeExpressionNode (Interpreter 1 exampleHost) (Literal (Vector3Literal 1 2 3)) emptyInterp
       = Some (Inr (Vector3Literal 1 2 3), emptyInterp)
   \<and> executeBinaryExpression (Interpreter 1 exampleHost) exampleHost
        (LeftValue (Vector2Literal 1 2)) ''+'' (Literal (Vector2Literal 3 4)) emptyInterp
      = Some (Inl (RuntimeException ''Unable to parse binary expression''), emptyInterp)
   \<and> executeBinaryExpression (Interpreter 1 exampleHost) exampleHost
        (LeftValue (Vector2Literal 1 2)) ''!='' (Literal (Vector3Literal 1 2 3)) emptyInterp
      = Some (Inr (BooleanLiteral True), emptyInterp)
   \<and> executeBinaryExpression (Interpreter 1 exampleHost) exampleHost
        (LeftValue (Vector2Literal 1 2)) ''=='' (Literal (Vector3Literal 1 2 3)) emptyInterp
      = Some (Inr (BooleanLiteral False), emptyInterp)"
proof -
  have a: "isVector (Vector2Literal (1::int) 2)" and b: "isVector (Vector2Literal (3::int) 4)"
    and c: "isVector (Vector3Literal (1::int) 2 3)"
    by (simp_all add: isVector_def)
  have e: "m_executeExpressionNode (Interpreter 1 exampleHost) (Literal (Vector2Literal 3 4))
             emptyInterp = Some (Inr (Vector2Literal 3 4), emptyInterp)"
    by (simp add: run_defs)
  have f: "m_executeExpressionNode (Interpreter 1 exampleHost) (Literal (Vector3Literal 1 2 3))
             emptyInterp = Some (Inr (Vector3Literal 1 2 3), emptyInterp)"
    by (simp add: run_defs)
  show ?thesis
    using C5_vector_operands [OF a b e, where operator = "''+''"]
      C5_vector_operands [OF a c f, where operator = "''!=''"]
      C5_vector_operands [OF a c f, where operator = "''==''"] a b c e f
    by simp
qed

text \<open>
  C6. Claim: for every binary expression whose two operands are not callable and are of
  different kinds, \<^verbatim>\<open>==\<close> gives \<^verbatim>\<open>BooleanLiteral(false)\<close>, \<^verbatim>\<open>!=\<close> gives \<^verbatim>\<open>BooleanLiteral(true)\<close>,
  and any other operator raises \<^verbatim>\<open>InvalidBinaryExpression\<close>.

  Lines 319 to 325 refuse a left identifier by the type its cell was declared with, not
  by the kind of the value the cell holds. The cell \<^verbatim>\<open>f\<close> is declared with a function and
  then assigned \<^verbatim>\<open>3\<close>: in \<^verbatim>\<open>f == 'a'\<close> the operands are a number and a text, neither callable,
  and the expression raises \<^verbatim>\<open>'Invalid binary expression'\<close> instead of giving \<^verbatim>\<open>false\<close>. The
  last equation runs the three statements through \<^verbatim>\<open>execute\<close>.
\<close>

theorem C6_function_typed_cell_is_refused:
  "\<not> isCallable (NumberLiteral 3 :: int Value) \<and> \<not> isCallable (TextLiteral ''a'' :: int Value)
   \<and> vtype (NumberLiteral 3 :: int Value) \<noteq> vtype (TextLiteral ''a'' :: int Value)
   \<and> Memory_get ''f'' (memory retypedCaller) = Inr numberInFunctionCell
   \<and> mv_value numberInFunctionCell = NumberLiteral 3
   \<and> executeBinaryExpression (Interpreter 1 exampleHost) exampleHost
        (LeftIdentifier ''f'') ''=='' (Literal (TextLiteral ''a'')) retypedCaller
      = Some (Inl (RuntimeException ''Invalid binary expression''), retypedCaller)
   \<and> execute 6 exampleHost
        [Declaration ''variable'' ''f'' (Literal (FuncDeclaration [] [])) None False,
         Assignment ''f'' (Literal (NumberLiteral 3)),
         Expression (BinaryExpression (LeftIdentifier ''f'') ''=='' (Literal (TextLiteral ''a'')))]
        emptyInterp
      = Some (Inr (), retypedCaller\<lparr>stderr := [''Invalid binary expression'']\<rparr>, [])"
  by (simp add: execute_def executeModule_def executeDeclaration_def executeAssignment_def
      executeBinaryExpression_def unwrapLeft_def run_defs isCallable_def clearMemory_def
      retypedCaller_def numberInFunctionCell_def exampleHost_def emptyInterp_def)

text \<open>
  C6, as the code has it: let the right operand evaluate to a value \<open>r\<close> that is not
  callable. When the left operand is a literal \<open>l\<close>, or an identifier whose cell is not of
  the type \<^verbatim>\<open>'func'\<close> or \<^verbatim>\<open>'internalFunc'\<close> and holds \<open>l\<close>, and \<open>l\<close> is not callable and of another
  kind than \<open>r\<close>, then \<^verbatim>\<open>==\<close> gives \<^verbatim>\<open>BooleanLiteral(false)\<close>, \<^verbatim>\<open>!=\<close> gives
  \<^verbatim>\<open>BooleanLiteral(true)\<close> and any other operator raises \<^verbatim>\<open>InvalidBinaryExpression\<close>. When
  the left operand is an identifier whose cell is of the type \<^verbatim>\<open>'func'\<close> or \<^verbatim>\<open>'internalFunc'\<close>,
  the expression raises \<^verbatim>\<open>InvalidBinaryOperand\<close> for every operator, whatever the cell
  holds.
\<close>

theorem C6_cross_type:
  assumes "m_executeExpressionNode (Interpreter n h) right s = Some (Inr r, s')"
    and "\<not> isCallable r"
  shows "(\<forall>l. \<not> isCallable l \<and> vtype l \<noteq> vtype r \<longrightarrow>
            executeBinaryExpression (Interpreter n h) h (LeftValue l) operator right s =
              (if operator = ''=='' then Some (Inr (BooleanLiteral False), s')
               else if operator = ''!='' then Some (Inr (BooleanLiteral True), s')
               else Some (Inl (RuntimeException ''Unable to parse binary expression''), s')))
       \<and> (\<forall>ident c.
            Memory_get ident (memory s') = Inr c
            \<and> mv_type c \<noteq> ''func'' \<and> mv_type c \<noteq> ''internalFunc''
            \<and> \<not> isCallable (mv_value c) \<and> vtype (mv_value c) \<noteq> vtype r \<longrightarrow>
            executeBinaryExpression (Interpreter n h) h (LeftIdentifier ident) operator right s =
              (if operator = ''=='' then Some (Inr (BooleanLiteral False), s')
               else if operator = ''!='' then Some (Inr (BooleanLiteral True), s')
               else Some (Inl (RuntimeException ''Unable to parse binary expression''), s')))
       \<and> (\<forall>ident c.
            Memory_get ident (memory s') = Inr c
            \<and> (mv_type c = ''func'' \<or> mv_type c = ''internalFunc'') \<longrightarrow>
            executeBinaryExpression (Interpreter n h) h (LeftIdentifier ident) operator right s =
              Some (Inl (RuntimeException ''Invalid binary expression''), s'))"
proof (intro conjI allI impI)
  fix l :: "'a Value"
  assume "\<not> isCallable l \<and> vtype l \<noteq> vtype r"
  then have kinds: "vtype l \<noteq> vtype r" by simp
  show "executeBinaryExpression (Interpreter n h) h (LeftValue l) operator right s =
          (if operator = ''=='' then Some (Inr (BooleanLiteral False), s')
           else if operator = ''!='' then Some (Inr (BooleanLiteral True), s')
           else Some (Inl (RuntimeException ''Unable to parse binary expression''), s'))"
    using assms kinds
    by (simp add: executeBinaryExpression_def unwrapLeft_def run_defs isCallable_def
        binaryOperator_differing_kinds crossType_def)
next
  fix ident and c :: "'a memoryValue"
  assume a: "Memory_get ident (memory s') = Inr c
            \<and> mv_type c \<noteq> ''func'' \<and> mv_type c \<noteq> ''internalFunc''
            \<and> \<not> isCallable (mv_value c) \<and> vtype (mv_value c) \<noteq> vtype r"
  then have cell: "Memory_get ident (memory s') = Inr c"
    and declared: "mv_type c \<noteq> ''func''" "mv_type c \<noteq> ''internalFunc''"
    and kinds: "vtype (mv_value c) \<noteq> vtype r"
    by blast+
  show "executeBinaryExpression (Interpreter n h) h (LeftIdentifier ident) operator right s =
          (if operator = ''=='' then Some (Inr (BooleanLiteral False), s')
           else if operator = ''!='' then Some (Inr (BooleanLiteral True), s')
           else Some (Inl (RuntimeException ''Unable to parse binary expression''), s'))"
    using assms cell declared kinds
    by (simp add: executeBinaryExpression_def unwrapLeft_def run_defs isCallable_def
        binaryOperator_differing_kinds crossType_def)
next
  fix ident and c :: "'a memoryValue"
  assume a: "Memory_get ident (memory s') = Inr c
            \<and> (mv_type c = ''func'' \<or> mv_type c = ''internalFunc'')"
  then have cell: "Memory_get ident (memory s') = Inr c"
    and declared: "mv_type c = ''func'' \<or> mv_type c = ''internalFunc''"
    by blast+
  show "executeBinaryExpression (Interpreter n h) h (LeftIdentifier ident) operator right s =
          Some (Inl (RuntimeException ''Invalid binary expression''), s')"
    using assms cell declared
    by (auto simp add: executeBinaryExpression_def unwrapLeft_def run_defs isCallable_def)
qed

text \<open>The witness: the scenario of the specification, \<^verbatim>\<open>'a' == 3\<close>; then \<^verbatim>\<open>x != 3\<close> and
  \<^verbatim>\<open>x + 3\<close> where the caller binds \<^verbatim>\<open>x\<close> to a text in a cell of type \<^verbatim>\<open>'text'\<close>; then
  \<^verbatim>\<open>f + 3\<close> where \<^verbatim>\<open>f\<close> is a cell of type \<^verbatim>\<open>'func'\<close>.\<close>

theorem C6_cross_type_witness:
  "m_executeExpressionNode (Interpreter 1 exampleHost) (Literal (NumberLiteral 3)) emptyInterp
     = Some (Inr (NumberLiteral 3), emptyInterp)
   \<and> \<not> isCallable (NumberLiteral (3::int))
   \<and> \<not> isCallable (TextLiteral ''a'' :: int Value)
   \<and> vtype (TextLiteral ''a'' :: int Value) \<noteq> vtype (NumberLiteral (3::int))
   \<and> executeBinaryExpression (Interpreter 1 exampleHost) exampleHost
        (LeftValue (TextLiteral ''a'')) ''=='' (Literal (NumberLiteral 3)) emptyInterp
      = Some (Inr (BooleanLiteral False), emptyInterp)
   \<and> m_executeExpressionNode (Interpreter 1 exampleHost) (Literal (NumberLiteral 3))
        shadowingCaller
     = Some (Inr (NumberLiteral 3), shadowingCaller)
   \<and> Memory_get ''x'' (memory shadowingCaller) = Inr outerX
   \<and> mv_type outerX \<noteq> ''func'' \<and> mv_type outerX \<noteq> ''internalFunc''
   \<and> \<not> isCallable (mv_value outerX) \<and> vtype (mv_value outerX) \<noteq> vtype (NumberLiteral (3::int))
   \<and> executeBinaryExpression (Interpreter 1 exampleHost) exampleHost
        (LeftIdentifier ''x'') ''!='' (Literal (NumberLiteral 3)) shadowingCaller
      = Some (Inr (BooleanLiteral True), shadowingCaller)
   \<and> executeBinaryExpression (Interpreter 1 exampleHost) exampleHost
        (LeftIdentifier ''x'') ''+'' (Literal (NumberLiteral 3)) shadowingCaller
      = Some (Inl (RuntimeException ''Unable to parse binary expression''), shadowingCaller)
   \<and> Memory_get ''f'' (memory shadowingCaller) = Inr secondOf
   \<and> mv_type secondOf = ''func''
   \<and> executeBinaryExpression (Interpreter 1 exampleHost) exampleHost
        (LeftIdentifier ''f'') ''+'' (Literal (NumberLiteral 3)) shadowingCaller
      = Some (Inl (RuntimeException ''Invalid binary expression''), shadowingCaller)"
proof -
  have e: "m_executeExpressionNode (Interpreter 1 exampleHost) (Literal (NumberLiteral 3))
             emptyInterp = Some (Inr (NumberLiteral 3), emptyInterp)"
    by (simp add: run_defs)
  have e': "m_executeExpressionNode (Interpreter 1 exampleHost) (Literal (NumberLiteral 3))
             shadowingCaller = Some (Inr (NumberLiteral 3), shadowingCaller)"
    by (simp add: run_defs)
  have r: "\<not> isCallable (NumberLiteral (3::int))"
    by (simp add: isCallable_def)
  have l: "\<not> isCallable (TextLiteral ''a'' :: int Value)
           \<and> vtype (TextLiteral ''a'' :: int Value) \<noteq> vtype (NumberLiteral (3::int))"
    by (simp add: isCallable_def)
  have x: "Memory_get ''x'' (memory shadowingCaller) = Inr outerX
           \<and> mv_type outerX \<noteq> ''func'' \<and> mv_type outerX \<noteq> ''internalFunc''
           \<and> \<not> isCallable (mv_value outerX)
           \<and> vtype (mv_value outerX) \<noteq> vtype (NumberLiteral (3::int))"
    by (simp add: shadowingCaller_def outerX_def isCallable_def)
  have f: "Memory_get ''f'' (memory shadowingCaller) = Inr secondOf
           \<and> (mv_type secondOf = ''func'' \<or> mv_type secondOf = ''internalFunc'')"
    by (simp add: shadowingCaller_def secondOf_def)
  have literal: "executeBinaryExpression (Interpreter 1 exampleHost) exampleHost
        (LeftValue (TextLiteral ''a'')) ''=='' (Literal (NumberLiteral 3)) emptyInterp
      = Some (Inr (BooleanLiteral False), emptyInterp)"
    using C6_cross_type [OF e r, where operator = "''==''",
        THEN conjunct1, rule_format, OF l]
    by simp
  have differs: "executeBinaryExpression (Interpreter 1 exampleHost) exampleHost
        (LeftIdentifier ''x'') ''!='' (Literal (NumberLiteral 3)) shadowingCaller
      = Some (Inr (BooleanLiteral True), shadowingCaller)"
    using C6_cross_type [OF e' r, where operator = "''!=''",
        THEN conjunct2, THEN conjunct1, rule_format, OF x]
    by simp
  have plus: "executeBinaryExpression (Interpreter 1 exampleHost) exampleHost
        (LeftIdentifier ''x'') ''+'' (Literal (NumberLiteral 3)) shadowingCaller
      = Some (Inl (RuntimeException ''Unable to parse binary expression''), shadowingCaller)"
    using C6_cross_type [OF e' r, where operator = "''+''",
        THEN conjunct2, THEN conjunct1, rule_format, OF x]
    by simp
  have refused: "executeBinaryExpression (Interpreter 1 exampleHost) exampleHost
        (LeftIdentifier ''f'') ''+'' (Literal (NumberLiteral 3)) shadowingCaller
      = Some (Inl (RuntimeException ''Invalid binary expression''), shadowingCaller)"
    using C6_cross_type [OF e' r, where operator = "''+''",
        THEN conjunct2, THEN conjunct2, rule_format, OF f] .
  have t: "mv_type secondOf = ''func''"
    by (simp add: secondOf_def)
  from e e' r l x f t literal differs plus refused show ?thesis
    by blast
qed

text \<open>
  C7. For every if-statement whose condition evaluates to the value \<open>v\<close>:
  \<^verbatim>\<open>BooleanLiteral(true)\<close> executes the true block; \<^verbatim>\<open>BooleanLiteral(false)\<close> and
  \<^verbatim>\<open>NothingLiteral\<close> execute the false block when there is one and nothing otherwise; a
  value of any other kind raises \<^verbatim>\<open>NonBooleanCondition\<close>.
\<close>

theorem C7_if_statement:
  assumes "m_executeExpressionNode (Interpreter n h) condition s = Some (Inr v, s')"
  shows "executeIfStatementNode (Interpreter n h) condition trueExpression falseExpression s =
           (if v = BooleanLiteral True then m_executeCodeBlock (Interpreter n h) trueExpression s'
            else if v = BooleanLiteral False \<or> v = NothingLiteral
            then (case falseExpression of
                    Some block \<Rightarrow> m_executeCodeBlock (Interpreter n h) block s'
                  | None \<Rightarrow> Some (Inr (), s'))
            else Some (Inl (RuntimeException ''Invalid boolean expression''), s'))"
  using assms
  by (cases v) (auto simp add: executeIfStatementNode_def run_defs split: option.splits)

text \<open>The witness: the scenario of the specification, a number as the condition; then
  \<^verbatim>\<open>true\<close> with a true block that declares \<^verbatim>\<open>x\<close>, and \<^verbatim>\<open>nothing\<close> without a false block.\<close>

theorem C7_if_statement_witness:
  "m_executeExpressionNode (Interpreter 5 exampleHost) (Literal (NumberLiteral 1)) emptyInterp
     = Some (Inr (NumberLiteral 1), emptyInterp)
   \<and> executeIfStatementNode (Interpreter 5 exampleHost) (Literal (NumberLiteral 1))
        [Expression (Literal (TextLiteral ''a''))] None emptyInterp
      = Some (Inl (RuntimeException ''Invalid boolean expression''), emptyInterp)
   \<and> m_executeExpressionNode (Interpreter 5 exampleHost) (Literal (BooleanLiteral True)) emptyInterp
     = Some (Inr (BooleanLiteral True), emptyInterp)
   \<and> m_executeCodeBlock (Interpreter 5 exampleHost)
        [Declaration ''constant'' ''x'' (Literal (TextLiteral ''a'')) None False] emptyInterp
      = Some (Inr (), emptyInterp\<lparr>memory :=
          [[(''x'', \<lparr>mv_declarationType = ''constant'', mv_identifier = ''x'', mv_type = ''text'',
                    mv_value = TextLiteral ''a'', mv_internalType = None\<rparr>)]]\<rparr>)
   \<and> executeIfStatementNode (Interpreter 5 exampleHost) (Literal (BooleanLiteral True))
        [Declaration ''constant'' ''x'' (Literal (TextLiteral ''a'')) None False] None emptyInterp
      = Some (Inr (), emptyInterp\<lparr>memory :=
          [[(''x'', \<lparr>mv_declarationType = ''constant'', mv_identifier = ''x'', mv_type = ''text'',
                    mv_value = TextLiteral ''a'', mv_internalType = None\<rparr>)]]\<rparr>)
   \<and> m_executeExpressionNode (Interpreter 5 exampleHost) (Literal NothingLiteral) emptyInterp
     = Some (Inr NothingLiteral, emptyInterp)
   \<and> executeIfStatementNode (Interpreter 5 exampleHost) (Literal NothingLiteral)
        [Declaration ''constant'' ''x'' (Literal (TextLiteral ''a'')) None False] None emptyInterp
      = Some (Inr (), emptyInterp)"
proof -
  have e: "m_executeExpressionNode (Interpreter 5 exampleHost) (Literal (NumberLiteral 1))
             emptyInterp = Some (Inr (NumberLiteral 1), emptyInterp)"
    by (simp add: run_defs)
  have t: "m_executeExpressionNode (Interpreter 5 exampleHost) (Literal (BooleanLiteral True))
             emptyInterp = Some (Inr (BooleanLiteral True), emptyInterp)"
    by (simp add: run_defs)
  have n: "m_executeExpressionNode (Interpreter 5 exampleHost) (Literal NothingLiteral)
             emptyInterp = Some (Inr NothingLiteral, emptyInterp)"
    by (simp add: run_defs)
  have b: "m_executeCodeBlock (Interpreter 5 exampleHost)
        [Declaration ''constant'' ''x'' (Literal (TextLiteral ''a'')) None False] emptyInterp
      = Some (Inr (), emptyInterp\<lparr>memory :=
          [[(''x'', \<lparr>mv_declarationType = ''constant'', mv_identifier = ''x'', mv_type = ''text'',
                    mv_value = TextLiteral ''a'', mv_internalType = None\<rparr>)]]\<rparr>)"
    by (simp add: executeDeclaration_def run_defs exampleHost_def emptyInterp_def clearMemory_def)
  show ?thesis
    using C7_if_statement [OF e, of "[Expression (Literal (TextLiteral ''a''))]" None]
      C7_if_statement
        [OF t, of "[Declaration ''constant'' ''x'' (Literal (TextLiteral ''a'')) None False]" None]
      C7_if_statement
        [OF n, of "[Declaration ''constant'' ''x'' (Literal (TextLiteral ''a'')) None False]" None]
      e t n b
    by simp
qed

text \<open>
  C8. For every module, \<^verbatim>\<open>execute\<close> catches every \<^verbatim>\<open>RuntimeException\<close> that the evaluation
  of the module raises, gives its rendering to \<^verbatim>\<open>stderr\<close> and returns normally; every
  other exception leaves \<^verbatim>\<open>execute\<close> unchanged. The exception halts the module: the
  statements after the one that raised it are not executed.
\<close>

theorem C8_execute_catches_runtime_errors:
  "(\<forall>message s' tree'.
      m_executeModule (Interpreter n h) tree (s\<lparr>memory := clearMemory\<rparr>)
        = Some (Inl (RuntimeException message), s', tree') \<longrightarrow>
      execute n h tree s
        = Some (Inr (), s'\<lparr>stderr := stderr s' @ [exceptionToString h message]\<rparr>, tree'))
   \<and> (\<forall>er s' tree'.
      m_executeModule (Interpreter n h) tree (s\<lparr>memory := clearMemory\<rparr>) = Some (Inl er, s', tree')
      \<and> \<not> isRuntimeException er \<longrightarrow>
      execute n h tree s = Some (Inl er, s', tree'))
   \<and> (\<forall>er statement rest s0 s'.
      m_executeStatement (Interpreter n h) statement s0 = Some (Inl er, s') \<longrightarrow>
      executeStatements (Interpreter n h) h (statement # rest) s0 = Some (Inl er, s'))"
  by (auto simp add: execute_def run_defs split: error.splits)

text \<open>The witness: an identifier that is not declared, followed by a statement that would
  print; and a return in a branch of an if-statement, whose signal is no
  \<^verbatim>\<open>RuntimeException\<close>.\<close>

theorem C8_execute_catches_runtime_errors_witness:
  "m_executeModule (Interpreter 4 exampleHost)
      [Expression (Identifier ''x''), Expression (Literal (TextLiteral ''a''))]
      (emptyInterp\<lparr>memory := clearMemory\<rparr>)
     = Some (Inl (RuntimeException ''UndefinedIdentifier''), emptyInterp, [])
   \<and> execute 4 exampleHost
        [Expression (Identifier ''x''), Expression (Literal (TextLiteral ''a''))] emptyInterp
      = Some (Inr (), emptyInterp\<lparr>stderr := [''UndefinedIdentifier'']\<rparr>, [])
   \<and> m_executeModule (Interpreter 6 exampleHost)
      [IfStatement (Literal (BooleanLiteral True))
         [ReturnStatement (Literal (TextLiteral ''a''))] None]
      (emptyInterp\<lparr>memory := clearMemory\<rparr>)
     = Some (Inl (ControlFlowException ''Return'' (TextLiteral ''a'')), emptyInterp, [])
   \<and> \<not> isRuntimeException (ControlFlowException ''Return'' (TextLiteral ''a'' :: int Value))
   \<and> execute 6 exampleHost
      [IfStatement (Literal (BooleanLiteral True))
         [ReturnStatement (Literal (TextLiteral ''a''))] None]
      emptyInterp
     = Some (Inl (ControlFlowException ''Return'' (TextLiteral ''a'')), emptyInterp, [])"
proof -
  have m: "m_executeModule (Interpreter 4 exampleHost)
      [Expression (Identifier ''x''), Expression (Literal (TextLiteral ''a''))]
      (emptyInterp\<lparr>memory := clearMemory\<rparr>)
     = Some (Inl (RuntimeException ''UndefinedIdentifier''), emptyInterp, [])"
    by (simp add: executeModule_def run_defs emptyInterp_def clearMemory_def)
  have "execute 4 exampleHost
          [Expression (Identifier ''x''), Expression (Literal (TextLiteral ''a''))] emptyInterp
        = Some (Inr (), emptyInterp\<lparr>stderr := stderr emptyInterp
                  @ [exceptionToString exampleHost ''UndefinedIdentifier'']\<rparr>, [])"
    using C8_execute_catches_runtime_errors
      [of 4 exampleHost "[Expression (Identifier ''x''), Expression (Literal (TextLiteral ''a''))]"
        emptyInterp, THEN conjunct1, rule_format, OF m] .
  then have caught: "execute 4 exampleHost
          [Expression (Identifier ''x''), Expression (Literal (TextLiteral ''a''))] emptyInterp
        = Some (Inr (), emptyInterp\<lparr>stderr := [''UndefinedIdentifier'']\<rparr>, [])"
    by (simp add: exampleHost_def emptyInterp_def)
  have r: "m_executeModule (Interpreter 6 exampleHost)
      [IfStatement (Literal (BooleanLiteral True))
         [ReturnStatement (Literal (TextLiteral ''a''))] None]
      (emptyInterp\<lparr>memory := clearMemory\<rparr>)
     = Some (Inl (ControlFlowException ''Return'' (TextLiteral ''a'')), emptyInterp, [])"
    by (simp add: executeModule_def executeIfStatementNode_def run_defs emptyInterp_def
        clearMemory_def)
  have k: "\<not> isRuntimeException (ControlFlowException ''Return'' (TextLiteral ''a'' :: int Value))"
    by simp
  have thrown: "execute 6 exampleHost
      [IfStatement (Literal (BooleanLiteral True))
         [ReturnStatement (Literal (TextLiteral ''a''))] None]
      emptyInterp
     = Some (Inl (ControlFlowException ''Return'' (TextLiteral ''a'')), emptyInterp, [])"
    using C8_execute_catches_runtime_errors
      [of 6 exampleHost
        "[IfStatement (Literal (BooleanLiteral True))
            [ReturnStatement (Literal (TextLiteral ''a''))] None]"
        emptyInterp, THEN conjunct2, THEN conjunct1, rule_format, OF conjI [OF r k]] .
  from m caught r k thrown show ?thesis
    by blast
qed



text \<open>
  C10. Evaluating a code block (the body of a function or a branch of an if-statement)
  gives \<^verbatim>\<open>stdout\<close> nothing for the values of its statements: on a host whose internal
  functions write nothing to \<^verbatim>\<open>stdout\<close>, a code block leaves \<^verbatim>\<open>stdout\<close> as it was, however it
  ends. Only the loop of \<^verbatim>\<open>executeModule\<close> over the statements of the module prints: the
  value of a statement that is not \<^verbatim>\<open>NothingLiteral\<close> is converted to text and given to
  \<^verbatim>\<open>stdout\<close> before the next statement runs.
\<close>

theorem C10_code_block_prints_no_statement_value:
  assumes "silentHost h"
  shows "(\<forall>body s r s'. m_executeCodeBlock (Interpreter n h) body s = Some (r, s')
            \<longrightarrow> stdout s' = stdout s)
       \<and> (\<forall>statement rest s v s'.
            m_executeStatement (Interpreter n h) statement s = Some (Inr (Some v), s')
            \<and> vtype v \<noteq> ''NothingLiteral''
            \<longrightarrow> executeStatements (Interpreter n h) h (statement # rest) s
                = executeStatements (Interpreter n h) h rest
                    (s'\<lparr>stdout := stdout s' @ [convertValueToText h v]\<rparr>))"
proof -
  have "\<forall>body. silent (m_executeCodeBlock (Interpreter n h) body)"
    using silentMethods_Interpreter [OF assms, of n] by (simp add: silentMethods_def)
  then show ?thesis
    by (auto simp add: silent_def andThen_def system_stdout_def perform_def)
qed

text \<open>The witness: the expression statement \<^verbatim>\<open>'a'\<close> in a code block and at the top of a
  module.\<close>

theorem C10_code_block_prints_no_statement_value_witness:
  "silentHost exampleHost
   \<and> m_executeCodeBlock (Interpreter 3 exampleHost) [Expression (Literal (TextLiteral ''a''))]
       emptyInterp = Some (Inr (), emptyInterp)
   \<and> m_executeStatement (Interpreter 3 exampleHost) (Expression (Literal (TextLiteral ''a'')))
       emptyInterp = Some (Inr (Some (TextLiteral ''a'')), emptyInterp)
   \<and> vtype (TextLiteral ''a'' :: int Value) \<noteq> ''NothingLiteral''
   \<and> executeStatements (Interpreter 3 exampleHost) exampleHost
       [Expression (Literal (TextLiteral ''a''))] emptyInterp
     = Some (Inr (), emptyInterp\<lparr>stdout := [''a'']\<rparr>)"
proof -
  have h: "silentHost exampleHost"
    by (simp add: silentHost_def exampleHost_def)
  have b: "m_executeCodeBlock (Interpreter 3 exampleHost)
             [Expression (Literal (TextLiteral ''a''))] emptyInterp = Some (Inr (), emptyInterp)"
    by (simp add: run_defs)
  have st: "m_executeStatement (Interpreter 3 exampleHost)
              (Expression (Literal (TextLiteral ''a''))) emptyInterp
            = Some (Inr (Some (TextLiteral ''a'')), emptyInterp)"
    by (simp add: run_defs)
  have k: "vtype (TextLiteral ''a'' :: int Value) \<noteq> ''NothingLiteral''"
    by simp
  have "executeStatements (Interpreter 3 exampleHost) exampleHost
          [Expression (Literal (TextLiteral ''a''))] emptyInterp
        = executeStatements (Interpreter 3 exampleHost) exampleHost []
            (emptyInterp\<lparr>stdout := stdout emptyInterp
               @ [convertValueToText exampleHost (TextLiteral ''a'')]\<rparr>)"
    using C10_code_block_prints_no_statement_value
      [OF h, of 3, THEN conjunct2, rule_format, OF conjI [OF st k]] .
  then have "executeStatements (Interpreter 3 exampleHost) exampleHost
          [Expression (Literal (TextLiteral ''a''))] emptyInterp
        = Some (Inr (), emptyInterp\<lparr>stdout := [''a'']\<rparr>)"
    by (simp add: ret_def exampleHost_def emptyInterp_def)
  with h b st k show ?thesis
    by simp
qed

end
